theory Spec2Isabelle
  imports Main
begin

section \<open>Device runtime: status codes and calls that can fail\<close>

text \<open>
  The status type of the CUDA runtime. A status is tested the way the source tests it,
  \<^verbatim>\<open>if (retval = call(...))\<close>: every value but \<open>cudaSuccess\<close> is a failure.
\<close>

datatype cudaError_t =
    cudaSuccess
  | cudaErrorMemoryAllocation
  | cudaErrorInvalidValue
  | cudaErrorInvalidDevice
  | cudaErrorInvalidDeviceFunction
  | cudaErrorLaunchFailure

definition failed :: "cudaError_t \<Rightarrow> bool" where
  "failed e \<longleftrightarrow> e \<noteq> cudaSuccess"

text \<open>
  Whether a call into the runtime succeeds is decided outside the program. The device
  carries the statuses its next calls will return, in order (success once the list is
  used up), and counts the device allocations it has performed.
\<close>

record device =
  outcomes :: "cudaError_t list"
  mallocs :: nat

definition runtime_call :: "device \<Rightarrow> cudaError_t \<times> device" where
  "runtime_call dev =
     (case outcomes dev of
        [] \<Rightarrow> (cudaSuccess, dev)
      | e # es \<Rightarrow> (e, dev\<lparr>outcomes := es\<rparr>))"

text \<open>
  Modelled from the spec: \<^verbatim>\<open>util::GRError\<close> (gunrock/util/error_utils.cuh) is not among the
  sources. Section 7 has a device operation failure "propagated verbatim to the caller":
  the wrapper reports its message and returns the status it was given.
\<close>

definition GRError :: "cudaError_t \<Rightarrow> string \<Rightarrow> cudaError_t" where
  "GRError e msg = e"

text \<open>\<^verbatim>\<open>cudaSetDevice\<close>, \<^verbatim>\<open>cudaMemcpy\<close> and \<^verbatim>\<open>util::SetDevice\<close>: runtime calls.\<close>

definition cudaSetDevice :: "int \<Rightarrow> device \<Rightarrow> cudaError_t \<times> device" where
  "cudaSetDevice gpu dev = runtime_call dev"

definition SetDevice :: "int \<Rightarrow> device \<Rightarrow> cudaError_t \<times> device" where
  "SetDevice gpu dev = (case cudaSetDevice gpu dev of (e, dev') \<Rightarrow> (GRError e ''cudaSetDevice failed'', dev'))"

text \<open>
  \<^verbatim>\<open>cudaMalloc\<close> of \<open>n\<close> elements: on success a fresh array, whose contents are not
  specified, and one more allocation on the device's count.
\<close>

definition cudaMalloc :: "int \<Rightarrow> device \<Rightarrow> cudaError_t \<times> 'a list option \<times> device" where
  "cudaMalloc n dev =
     (case runtime_call dev of (e, dev') \<Rightarrow>
        if failed e then (e, None, dev')
        else (cudaSuccess, Some (replicate (nat n) undefined), dev'\<lparr>mallocs := mallocs dev' + 1\<rparr>))"

text \<open>
  \<^verbatim>\<open>cudaMemcpy(dst, src, n * sizeof(T), ...)\<close>: the first \<open>n\<close> elements of \<open>dst\<close> become
  those of \<open>src\<close>.
\<close>

definition copy_elems :: "'a list \<Rightarrow> 'a list \<Rightarrow> int \<Rightarrow> 'a list" where
  "copy_elems dst src n = take (nat n) src @ drop (nat n) dst"

definition cudaMemcpy :: "'a list \<Rightarrow> 'a list \<Rightarrow> int \<Rightarrow> device \<Rightarrow> cudaError_t \<times> 'a list \<times> device" where
  "cudaMemcpy dst src n dev =
     (case runtime_call dev of (e, dev') \<Rightarrow>
        if failed e then (e, dst, dev') else (cudaSuccess, copy_elems dst src n, dev'))"

text \<open>
  Modelled from the spec: the kernels of gunrock/util/memset_kernel.cuh are not among the
  sources. By their names and their call sites ("Initial rank_curr = 0", "swap rank_curr
  and rank_next", Section 4.5 "re-zero/re-initialize mutable per-run arrays"),
  \<^verbatim>\<open>MemsetKernel(d_out, value, length)\<close> stores \<open>value\<close> in the first \<open>length\<close> entries of
  \<open>d_out\<close> and \<^verbatim>\<open>MemsetCopyVectorKernel(d_dst, d_src, length)\<close> copies the first \<open>length\<close>
  entries of \<open>d_src\<close> to \<open>d_dst\<close>. A launch returns no status to the host.
\<close>

definition MemsetKernel :: "'a list \<Rightarrow> 'a \<Rightarrow> int \<Rightarrow> 'a list" where
  "MemsetKernel d_out v len = replicate (min (nat len) (length d_out)) v @ drop (nat len) d_out"

definition MemsetCopyVectorKernel :: "'a list \<Rightarrow> 'a list \<Rightarrow> int \<Rightarrow> 'a list" where
  "MemsetCopyVectorKernel d_dst d_src len = take (nat len) d_src @ drop (nat len) d_dst"

text \<open>
  Modelled from the spec: \<^verbatim>\<open>util::MemsetIdxKernel\<close> of the same file; by its name and its
  call sites ("Put every vertex in there", Section 4.1 "identity range 0..N") it stores
  \<open>i\<close> in entry \<open>i\<close> of the first \<open>length\<close> entries.
\<close>

definition MemsetIdxKernel :: "int list \<Rightarrow> int \<Rightarrow> int list" where
  "MemsetIdxKernel d_out len = map int [0..<nat len] @ drop (nat len) d_out"

text \<open>
  What an operator of the traversal engine reports. Section 7 of the specification has a
  frontier overflow surfaced as a kind of its own, distinct from an allocation failure.
\<close>

datatype advance_status = AdvanceOk | FrontierOverflow

section \<open>BFS problem: device arrays, data slice, Reset and Extract\<close>

text \<open>
  \<^verbatim>\<open>VertexId\<close> and \<^verbatim>\<open>SizeT\<close> are \<^verbatim>\<open>int\<close>; the values stored in the arrays below are
  machine integers of that type. C++ division of integers truncates towards zero.
\<close>

definition c_div :: "int \<Rightarrow> int \<Rightarrow> int" where
  "c_div a b = (if (a < 0) = (b < 0) then \<bar>a\<bar> div \<bar>b\<bar> else - (\<bar>a\<bar> div \<bar>b\<bar>))"

text \<open>
  Modelled from the spec: \<^verbatim>\<open>util::MaxValue\<close> is not among the sources. Section 8 names
  the "max value" of the label type; for \<^verbatim>\<open>VertexId = int\<close> that is the largest 32-bit
  signed integer.
\<close>

definition MaxValue :: int where
  "MaxValue = 2 ^ 31 - 1"

text \<open>
  Modelled from the spec: \<^verbatim>\<open>util::Array1D\<close> (gunrock/util/array_utils.cuh) is not among the
  sources. An array has a host side and a device side, each absent (a null pointer) or
  holding its elements. Following Section 4.5, \<open>Allocate\<close> makes the device side an array
  of the requested size by a device allocation (Section 7: its failure is returned at
  once), \<open>Move\<close> from device to host copies the device elements into the host side ("copy
  final device arrays back to host-provided buffers"), \<open>SetPointer\<close> makes a caller's
  buffer the host side, \<open>Release\<close> gives the host side up, and \<open>GetSize\<close> is the number
  of device elements.
\<close>

record 'a Array1D =
  h_pointer :: "'a list option"
  d_pointer :: "'a list option"

definition Array1D_new :: "'a Array1D" where
  "Array1D_new = \<lparr>h_pointer = None, d_pointer = None\<rparr>"

definition Allocate :: "'a Array1D \<Rightarrow> int \<Rightarrow> device \<Rightarrow> cudaError_t \<times> 'a Array1D \<times> device" where
  "Allocate a n dev =
     (case cudaMalloc n dev of (e, p, dev') \<Rightarrow>
        if failed e then (e, a, dev') else (cudaSuccess, a\<lparr>d_pointer := p\<rparr>, dev'))"

definition GetSize :: "'a Array1D \<Rightarrow> int" where
  "GetSize a = (case d_pointer a of None \<Rightarrow> 0 | Some d \<Rightarrow> int (length d))"

definition SetPointer_host :: "'a Array1D \<Rightarrow> 'a list \<Rightarrow> 'a Array1D" where
  "SetPointer_host a buf = a\<lparr>h_pointer := Some buf\<rparr>"

definition SetPointer_device :: "'a Array1D \<Rightarrow> 'a list option \<Rightarrow> 'a Array1D" where
  "SetPointer_device a p = a\<lparr>d_pointer := p\<rparr>"

definition Move_device_to_host :: "'a Array1D \<Rightarrow> device \<Rightarrow> cudaError_t \<times> 'a Array1D \<times> device" where
  "Move_device_to_host a dev =
     (case runtime_call dev of (e, dev') \<Rightarrow>
        if failed e then (e, a, dev')
        else (cudaSuccess,
              (case d_pointer a of
                 None \<Rightarrow> a
               | Some d \<Rightarrow>
                   a\<lparr>h_pointer :=
                       Some (case h_pointer a of
                               None \<Rightarrow> d
                             | Some h \<Rightarrow> copy_elems h d (int (length d)))\<rparr>),
              dev'))"

definition Release_host :: "'a Array1D \<Rightarrow> device \<Rightarrow> cudaError_t \<times> 'a Array1D \<times> device" where
  "Release_host a dev =
     (case runtime_call dev of (e, dev') \<Rightarrow>
        if failed e then (e, a, dev') else (cudaSuccess, a\<lparr>h_pointer := None\<rparr>, dev'))"

text \<open>A memset kernel launched on the device side of an array.\<close>

definition Memset_device :: "'a Array1D \<Rightarrow> 'a \<Rightarrow> int \<Rightarrow> 'a Array1D" where
  "Memset_device a v len = a\<lparr>d_pointer := map_option (\<lambda>d. MemsetKernel d v len) (d_pointer a)\<rparr>"

text \<open>
  The BFS data slice: its own arrays and, from \<^verbatim>\<open>DataSliceBase\<close>, \<open>preds\<close> and
  \<open>temp_preds\<close>. Of the graph slice, \<open>Reset\<close> reads the node count and the
  \<open>original_vertex\<close> array.
\<close>

record BFS_DataSlice =
  labels :: "int Array1D"
  visited_mask :: "nat Array1D"
  temp_marker :: "nat Array1D"
  original_vertex :: "int Array1D"
  preds :: "int Array1D"
  temp_preds :: "int Array1D"

record GraphSlice =
  gs_nodes :: int
  gs_original_vertex :: "int Array1D"

definition DataSlice_new :: BFS_DataSlice where
  "DataSlice_new = \<lparr>labels = Array1D_new, visited_mask = Array1D_new, temp_marker = Array1D_new,
                     original_vertex = Array1D_new, preds = Array1D_new, temp_preds = Array1D_new\<rparr>"

text \<open>
  \<^verbatim>\<open>DataSlice::Init\<close>. The two template flags are parameters. \<^verbatim>\<open>DataSliceBase::Init\<close> is
  not among the sources; it is a call that returns a status.
\<close>

definition DataSlice_Init ::
  "bool \<Rightarrow> bool \<Rightarrow> BFS_DataSlice \<Rightarrow> int \<Rightarrow> device \<Rightarrow> cudaError_t \<times> BFS_DataSlice \<times> device" where
  "DataSlice_Init MARK_PREDECESSORS ENABLE_IDEMPOTENCE ds graph_nodes dev =
     (case runtime_call dev of (r0, dev0) \<Rightarrow>
      if failed r0 then (r0, ds, dev0) else
      case Allocate (labels ds) graph_nodes dev0 of (r1, l, dev1) \<Rightarrow>
      if failed r1 then (r1, ds, dev1) else
      let ds1 = ds\<lparr>labels := l\<rparr> in
      case (if MARK_PREDECESSORS then
              (case Allocate (preds ds1) graph_nodes dev1 of (r2, p, dev2) \<Rightarrow>
               if failed r2 then (r2, ds1, dev2) else
               case Allocate (temp_preds ds1) graph_nodes dev2 of (r3, t, dev3) \<Rightarrow>
               if failed r3 then (r3, ds1\<lparr>preds := p\<rparr>, dev3)
               else (cudaSuccess, ds1\<lparr>preds := p, temp_preds := t\<rparr>, dev3))
            else (cudaSuccess, ds1, dev1)) of (r4, ds4, dev4) \<Rightarrow>
      if failed r4 then (r4, ds4, dev4) else
      if ENABLE_IDEMPOTENCE then
        (case Allocate (visited_mask ds4) (c_div (graph_nodes + 7) 8) dev4 of (r5, m, dev5) \<Rightarrow>
         if failed r5 then (r5, ds4, dev5) else (cudaSuccess, ds4\<lparr>visited_mask := m\<rparr>, dev5))
      else (cudaSuccess, ds4, dev4))"

text \<open>
  \<^verbatim>\<open>DataSlice::Reset\<close>. Both allocations are requested on every call: the tests of the
  pointers against \<^verbatim>\<open>NULL\<close> that precede them in the source are commented out.
\<close>

definition DataSlice_Reset ::
  "bool \<Rightarrow> bool \<Rightarrow> BFS_DataSlice \<Rightarrow> GraphSlice \<Rightarrow> device \<Rightarrow> cudaError_t \<times> BFS_DataSlice \<times> device" where
  "DataSlice_Reset MARK_PREDECESSORS ENABLE_IDEMPOTENCE ds graph_slice dev =
     (let nodes = gs_nodes graph_slice in
      case Allocate (labels ds) nodes dev of (r1, l, dev1) \<Rightarrow>
      if failed r1 then (r1, ds, dev1) else
      let ds1 = ds\<lparr>labels :=
                    Memset_device l (if ENABLE_IDEMPOTENCE then - 1 else MaxValue - 1) nodes\<rparr> in
      case (if MARK_PREDECESSORS then
              (case Allocate (preds ds1) nodes dev1 of (r2, p, dev2) \<Rightarrow>
               if failed r2 then (r2, ds1, dev2)
               else (cudaSuccess, ds1\<lparr>preds := Memset_device p (- 2) nodes\<rparr>, dev2))
            else (cudaSuccess, ds1, dev1)) of (r2, ds2, dev2) \<Rightarrow>
      if failed r2 then (r2, ds2, dev2) else
      let ds3 = ds2\<lparr>original_vertex :=
                     SetPointer_device (original_vertex ds2)
                       (d_pointer (gs_original_vertex graph_slice))\<rparr>;
          ds4 = (if ENABLE_IDEMPOTENCE then
                   (let visited_mask_bytes = c_div (nodes * 1 + 7) 8;
                        visited_mask_elements = visited_mask_bytes * 1
                    in ds3\<lparr>visited_mask :=
                             Memset_device (visited_mask ds3) 0 visited_mask_elements\<rparr>)
                 else ds3)
      in (cudaSuccess, ds4, dev2))"

text \<open>
  The problem: one data slice and one graph slice for each GPU, and the two tables of
  \<^verbatim>\<open>ProblemBase\<close> that \<open>Extract\<close> reads (\<^verbatim>\<open>partition_tables[0]\<close> and
  \<^verbatim>\<open>convertion_tables[0]\<close>).
\<close>

record BFSProblem =
  num_gpus :: int
  gpu_idx :: "int list"
  problem_nodes :: int
  data_slices :: "BFS_DataSlice list"
  graph_slices :: "GraphSlice list"
  partition_table :: "int list"
  convertion_table :: "int list"

text \<open>
  \<^verbatim>\<open>BFSProblem::Reset\<close>: the loop over the GPUs, from \<open>gpu\<close> on. It takes no source vertex.
  The last step of an iteration copies the slice's structure to the device.
\<close>

function Reset_from ::
  "bool \<Rightarrow> bool \<Rightarrow> BFSProblem \<Rightarrow> int \<Rightarrow> device \<Rightarrow> cudaError_t \<times> BFSProblem \<times> device" where
  "Reset_from MARK_PREDECESSORS ENABLE_IDEMPOTENCE p gpu dev =
     (if 0 \<le> gpu \<and> gpu < num_gpus p then
        (case SetDevice (gpu_idx p ! nat gpu) dev of (r1, dev1) \<Rightarrow>
         if failed r1 then (r1, p, dev1) else
         case DataSlice_Reset MARK_PREDECESSORS ENABLE_IDEMPOTENCE
                (data_slices p ! nat gpu) (graph_slices p ! nat gpu) dev1 of (r2, ds, dev2) \<Rightarrow>
         let p2 = p\<lparr>data_slices := (data_slices p)[nat gpu := ds]\<rparr> in
         if failed r2 then (r2, p2, dev2) else
         case runtime_call dev2 of (r3, dev3) \<Rightarrow>
         if failed r3 then (r3, p2, dev3)
         else Reset_from MARK_PREDECESSORS ENABLE_IDEMPOTENCE p2 (gpu + 1) dev3)
      else (cudaSuccess, p, dev))"
  by pat_completeness auto
termination
  by (relation "measure (\<lambda>(M, I, p, gpu, dev). nat (num_gpus p - gpu))") auto

definition Reset :: "bool \<Rightarrow> bool \<Rightarrow> BFSProblem \<Rightarrow> device \<Rightarrow> cudaError_t \<times> BFSProblem \<times> device" where
  "Reset MARK_PREDECESSORS ENABLE_IDEMPOTENCE p dev =
     Reset_from MARK_PREDECESSORS ENABLE_IDEMPOTENCE p 0 dev"

text \<open>
  \<^verbatim>\<open>BFSProblem::Extract\<close>. The result is the status, the caller's two buffers, the problem
  and the device. On one GPU the caller's buffers are made the host side of \<open>labels\<close> and
  \<open>preds\<close> and the device arrays are moved into them.
\<close>

definition host_buffer :: "'a Array1D \<Rightarrow> 'a list \<Rightarrow> 'a list" where
  "host_buffer a buf = (case h_pointer a of None \<Rightarrow> buf | Some h \<Rightarrow> h)"

definition Extract_single ::
  "bool \<Rightarrow> BFSProblem \<Rightarrow> int list \<Rightarrow> int list \<Rightarrow> device
     \<Rightarrow> cudaError_t \<times> int list \<times> int list \<times> BFSProblem \<times> device" where
  "Extract_single MARK_PREDECESSORS p h_labels h_preds dev =
     (case SetDevice (gpu_idx p ! 0) dev of (r1, dev1) \<Rightarrow>
      if failed r1 then (r1, h_labels, h_preds, p, dev1) else
      let ds = data_slices p ! 0 in
      case Move_device_to_host (SetPointer_host (labels ds) h_labels) dev1 of (r2, l, dev2) \<Rightarrow>
      let ds2 = ds\<lparr>labels := l\<rparr>;
          p2 = p\<lparr>data_slices := (data_slices p)[0 := ds2]\<rparr>;
          h_labels2 = host_buffer l h_labels
      in
      if failed r2 then (r2, h_labels2, h_preds, p2, dev2) else
      if MARK_PREDECESSORS then
        (case Move_device_to_host (SetPointer_host (preds ds2) h_preds) dev2 of (r3, q, dev3) \<Rightarrow>
         let ds3 = ds2\<lparr>preds := q\<rparr>;
             p3 = p2\<lparr>data_slices := (data_slices p2)[0 := ds3]\<rparr>
         in (r3, h_labels2, host_buffer q h_preds, p3, dev3))
      else (cudaSuccess, h_labels2, h_preds, p2, dev2))"

text \<open>
  On several GPUs: every slice's arrays are moved to the host, then each vertex's values
  are gathered through the two tables (a vertex the tables do not place is reported and
  its entries are left as they were), then the host sides are released.
\<close>

function Extract_move ::
  "bool \<Rightarrow> BFSProblem \<Rightarrow> int \<Rightarrow> device \<Rightarrow> cudaError_t \<times> BFSProblem \<times> device" where
  "Extract_move MARK_PREDECESSORS p gpu dev =
     (if 0 \<le> gpu \<and> gpu < num_gpus p then
        (case SetDevice (gpu_idx p ! nat gpu) dev of (r1, dev1) \<Rightarrow>
         if failed r1 then (r1, p, dev1) else
         let ds = data_slices p ! nat gpu in
         case Move_device_to_host (labels ds) dev1 of (r2, l, dev2) \<Rightarrow>
         let ds2 = ds\<lparr>labels := l\<rparr>;
             p2 = p\<lparr>data_slices := (data_slices p)[nat gpu := ds2]\<rparr>
         in
         if failed r2 then (r2, p2, dev2) else
         if MARK_PREDECESSORS then
           (case Move_device_to_host (preds ds2) dev2 of (r3, q, dev3) \<Rightarrow>
            let ds3 = ds2\<lparr>preds := q\<rparr>;
                p3 = p2\<lparr>data_slices := (data_slices p2)[nat gpu := ds3]\<rparr>
            in
            if failed r3 then (r3, p3, dev3)
            else Extract_move MARK_PREDECESSORS p3 (gpu + 1) dev3)
         else Extract_move MARK_PREDECESSORS p2 (gpu + 1) dev2)
      else (cudaSuccess, p, dev))"
  by pat_completeness auto
termination
  by (relation "measure (\<lambda>(M, p, gpu, dev). nat (num_gpus p - gpu))") auto

definition Extract_gather ::
  "bool \<Rightarrow> BFSProblem \<Rightarrow> int list \<times> int list \<Rightarrow> nat \<Rightarrow> int list \<times> int list" where
  "Extract_gather MARK_PREDECESSORS p h v =
     (let gpu = partition_table p ! v;
          v' = convertion_table p ! v
      in
      if gpu \<ge> 0 \<and> gpu < num_gpus p \<and> v' \<ge> 0 \<and> v' < GetSize (labels (data_slices p ! nat gpu))
      then
        ((fst h)[v := host_buffer (labels (data_slices p ! nat gpu)) [] ! nat v'],
         (if MARK_PREDECESSORS
          then (snd h)[v := host_buffer (preds (data_slices p ! nat gpu)) [] ! nat v']
          else snd h))
      else h)"

function Extract_release ::
  "BFSProblem \<Rightarrow> int \<Rightarrow> device \<Rightarrow> cudaError_t \<times> BFSProblem \<times> device" where
  "Extract_release p gpu dev =
     (if 0 \<le> gpu \<and> gpu < num_gpus p then
        (let ds = data_slices p ! nat gpu in
         case Release_host (labels ds) dev of (r1, l, dev1) \<Rightarrow>
         let ds1 = ds\<lparr>labels := l\<rparr>;
             p1 = p\<lparr>data_slices := (data_slices p)[nat gpu := ds1]\<rparr>
         in
         if failed r1 then (r1, p1, dev1) else
         case Release_host (preds ds1) dev1 of (r2, q, dev2) \<Rightarrow>
         let ds2 = ds1\<lparr>preds := q\<rparr>;
             p2 = p1\<lparr>data_slices := (data_slices p1)[nat gpu := ds2]\<rparr>
         in
         if failed r2 then (r2, p2, dev2) else Extract_release p2 (gpu + 1) dev2)
      else (cudaSuccess, p, dev))"
  by pat_completeness auto
termination
  by (relation "measure (\<lambda>(p, gpu, dev). nat (num_gpus p - gpu))") auto

definition Extract ::
  "bool \<Rightarrow> BFSProblem \<Rightarrow> int list \<Rightarrow> int list \<Rightarrow> device
     \<Rightarrow> cudaError_t \<times> int list \<times> int list \<times> BFSProblem \<times> device" where
  "Extract MARK_PREDECESSORS p h_labels h_preds dev =
     (if num_gpus p = 1 then Extract_single MARK_PREDECESSORS p h_labels h_preds dev
      else
        (case Extract_move MARK_PREDECESSORS p 0 dev of (r1, p1, dev1) \<Rightarrow>
         if failed r1 then (r1, h_labels, h_preds, p1, dev1) else
         let h = fold (\<lambda>v h. Extract_gather MARK_PREDECESSORS p1 h v) [0..<nat (problem_nodes p1)]
                   (h_labels, h_preds)
         in
         case Extract_release p1 0 dev1 of (r2, p2, dev2) \<Rightarrow>
         (r2, fst h, snd h, p2, dev2)))"

text \<open>
  What the properties below speak of: a data slice as \<open>Reset\<close> leaves it, a slice whose
  device arrays have been moved to the host, a vertex that the tables place on a GPU, and a
  vertex whose entries \<open>Extract\<close> writes.
\<close>

definition slice_is_reset :: "bool \<Rightarrow> bool \<Rightarrow> BFS_DataSlice \<Rightarrow> GraphSlice \<Rightarrow> bool" where
  "slice_is_reset M I ds gs \<longleftrightarrow>
     d_pointer (labels ds) = Some (replicate (nat (gs_nodes gs)) (if I then - 1 else MaxValue - 1)) \<and>
     (M \<longrightarrow> d_pointer (preds ds) = Some (replicate (nat (gs_nodes gs)) (- 2)))"

definition moved :: "bool \<Rightarrow> BFS_DataSlice \<Rightarrow> BFS_DataSlice \<Rightarrow> bool" where
  "moved M ds ds' \<longleftrightarrow>
     d_pointer (labels ds') = d_pointer (labels ds) \<and>
     d_pointer (preds ds') = d_pointer (preds ds) \<and>
     (\<forall>d. d_pointer (labels ds) = Some d \<longrightarrow> (\<exists>rest. h_pointer (labels ds') = Some (d @ rest))) \<and>
     (M \<longrightarrow> (\<forall>d. d_pointer (preds ds) = Some d \<longrightarrow>
                   (\<exists>rest. h_pointer (preds ds') = Some (d @ rest))))"

definition placed :: "BFSProblem \<Rightarrow> nat \<Rightarrow> bool" where
  "placed p v \<longleftrightarrow>
     (let gpu = partition_table p ! v; v' = convertion_table p ! v
      in gpu \<ge> 0 \<and> gpu < num_gpus p \<and> v' \<ge> 0 \<and> v' < GetSize (labels (data_slices p ! nat gpu)))"

definition extracted :: "BFSProblem \<Rightarrow> nat \<Rightarrow> bool" where
  "extracted p v \<longleftrightarrow>
     (if num_gpus p = 1 then v < nat (gs_nodes (graph_slices p ! 0))
      else v < nat (problem_nodes p) \<and> placed p v)"

text \<open>
  A problem on one GPU for the path graph of four vertices, before any allocation, and a
  device on which every call succeeds.
\<close>

definition chain_problem :: BFSProblem where
  "chain_problem =
     \<lparr>num_gpus = 1, gpu_idx = [0], problem_nodes = 4,
      data_slices = [DataSlice_new],
      graph_slices = [\<lparr>gs_nodes = 4, gs_original_vertex = Array1D_new\<rparr>],
      partition_table = [0, 0, 0, 0], convertion_table = [0, 1, 2, 3]\<rparr>"

definition device_ok :: device where
  "device_ok = \<lparr>outcomes = [], mallocs = 0\<rparr>"

text \<open>The data slice of that problem as \<open>DataSlice::Init\<close> leaves it on that device.\<close>

definition chain_slice_initialised :: "cudaError_t \<times> BFS_DataSlice \<times> device" where
  "chain_slice_initialised = DataSlice_Init True False DataSlice_new 4 device_ok"

section \<open>BFS functor\<close>









section \<open>The traversal engine around the functor\<close>






















section \<open>HITS and BC problems: Extract and Reset\<close>

text \<open>
  The data slices of the HITS and the BC problem are structures of raw device pointers; a
  pointer is \<open>None\<close> when null and holds the array otherwise. \<^verbatim>\<open>Value\<close> is the type
  parameter \<open>'v\<close>. A copy from a null device pointer is rejected by the runtime with
  \<open>cudaErrorInvalidValue\<close>.
\<close>

definition cudaMemcpy_from ::
  "'a list \<Rightarrow> 'a list option \<Rightarrow> int \<Rightarrow> device \<Rightarrow> cudaError_t \<times> 'a list \<times> device" where
  "cudaMemcpy_from dst src n dev =
     (case src of
        None \<Rightarrow> (cudaErrorInvalidValue, dst, dev)
      | Some d \<Rightarrow> cudaMemcpy dst d n dev)"

record 'v HITS_DataSlice =
  hits_d_hrank_curr :: "'v list option"
  hits_d_arank_curr :: "'v list option"
  hits_d_hrank_next :: "'v list option"
  hits_d_arank_next :: "'v list option"
  hits_d_in_degrees :: "int list option"
  hits_d_out_degrees :: "int list option"
  hits_d_delta :: "'v list option"
  hits_d_src_node :: "int list option"
  hits_d_labels :: "int list option"

text \<open>
  Of a graph slice of \<^verbatim>\<open>ProblemBase\<close>, the HITS problem reads the two offset arrays and
  fills the first frontier queue. The problem holds, for each GPU, the data slice on the
  host, the copy of that structure on the device (\<open>None\<close> before it is allocated) and the
  graph slice.
\<close>

record HITS_GraphSlice =
  hg_d_row_offsets :: "int list"
  hg_d_column_offsets :: "int list"
  hg_d_keys0 :: "int list"

record 'v HITSProblem =
  hits_num_gpus :: int
  hits_nodes :: int
  hits_edges :: int
  hits_data_slices :: "'v HITS_DataSlice list"
  hits_d_data_slices :: "'v HITS_DataSlice option list"
  hits_gpu_idx :: "int list"
  hits_graph_slices :: "HITS_GraphSlice list"

text \<open>
  \<^verbatim>\<open>HITSProblem::Extract\<close>. The result is the status and the caller's two buffers. The
  status of \<^verbatim>\<open>cudaSetDevice\<close> is tested but not stored in \<^verbatim>\<open>retval\<close>: when it fails, the
  \<^verbatim>\<open>break\<close> leaves the block with \<^verbatim>\<open>retval\<close> still \<open>cudaSuccess\<close>. With more than one GPU
  nothing is done.
\<close>

definition HITS_Extract ::
  "'v HITSProblem \<Rightarrow> 'v list \<Rightarrow> 'v list \<Rightarrow> device \<Rightarrow> cudaError_t \<times> 'v list \<times> 'v list \<times> device" where
  "HITS_Extract p h_hrank h_arank dev =
     (let retval = cudaSuccess in
      if hits_num_gpus p = 1 then
        (case cudaSetDevice (hits_gpu_idx p ! 0) dev of (e1, dev1) \<Rightarrow>
         if failed (GRError e1 ''HITSProblem cudaSetDevice failed'')
         then (retval, h_hrank, h_arank, dev1)
         else
           case cudaMemcpy_from h_hrank (hits_d_hrank_curr (hits_data_slices p ! 0))
                  (hits_nodes p) dev1 of (e2, h_hrank2, dev2) \<Rightarrow>
           let retval = GRError e2 ''HITSProblem cudaMemcpy d_hranks failed'' in
           if failed retval then (retval, h_hrank2, h_arank, dev2)
           else
             case cudaMemcpy_from h_arank (hits_d_arank_curr (hits_data_slices p ! 0))
                    (hits_nodes p) dev2 of (e3, h_arank3, dev3) \<Rightarrow>
             let retval = GRError e3 ''HITSProblem cudaMemcpy d_aranks failed'' in
             (retval, h_hrank2, h_arank3, dev3))
      else (retval, h_hrank, h_arank, dev))"

text \<open>
  \<^verbatim>\<open>HITSProblem::Reset\<close> allocates an array of the data slice only when its pointer is
  null: \<^verbatim>\<open>if (!ptr) { cudaMalloc ...; if failed return; ptr = new; }\<close>. A pointer that is
  not null is left alone and no call is made.
\<close>

definition malloc_if_null ::
  "'a list option \<Rightarrow> int \<Rightarrow> string \<Rightarrow> device \<Rightarrow> cudaError_t \<times> 'a list option \<times> device" where
  "malloc_if_null ptr n msg dev =
     (case ptr of
        Some a \<Rightarrow> (cudaSuccess, ptr, dev)
      | None \<Rightarrow>
          (case cudaMalloc n dev of (e, fresh, dev') \<Rightarrow>
             if failed (GRError e msg) then (GRError e msg, None, dev')
             else (cudaSuccess, fresh, dev')))"

text \<open>
  Modelled from the spec: \<^verbatim>\<open>util::MemsetMadVectorKernel\<close> (memset_kernel.cuh) is not among
  the sources. By its name and its call sites, which compute the degrees from two
  neighbouring offsets with the scale \<open>-1\<close>, \<^verbatim>\<open>MemsetMadVectorKernel(d_dst, d_src1, d_src2,
  scale, length)\<close> stores \<open>d_src1[i] * scale + d_src2[i]\<close> in the first \<open>length\<close> entries of
  \<open>d_dst\<close>.
\<close>

definition MemsetMadVectorKernel :: "int list \<Rightarrow> int list \<Rightarrow> int list \<Rightarrow> int \<Rightarrow> int \<Rightarrow> int list" where
  "MemsetMadVectorKernel d_dst d_src1 d_src2 scale len =
     map (\<lambda>i. d_src1 ! i * scale + d_src2 ! i) [0 ..< min (nat len) (length d_dst)]
       @ drop (nat len) d_dst"

text \<open>
  The part of the loop body of \<^verbatim>\<open>HITSProblem::Reset\<close> that allocates what is missing, for
  the data slice of one GPU; the first failure is returned with the slice as it then is.
\<close>

definition HITS_Reset_allocate ::
  "'v HITS_DataSlice \<Rightarrow> int \<Rightarrow> device \<Rightarrow> cudaError_t \<times> 'v HITS_DataSlice \<times> device" where
  "HITS_Reset_allocate ds nodes dev =
     (case malloc_if_null (hits_d_hrank_curr ds) nodes ''HITSProblem cudaMalloc d_hrank1 failed'' dev
      of (r1, p1, dev1) \<Rightarrow>
      let ds1 = ds\<lparr>hits_d_hrank_curr := p1\<rparr> in
      if failed r1 then (r1, ds1, dev1) else
      case malloc_if_null (hits_d_arank_curr ds1) nodes ''HITSProblem cudaMalloc d_hrank1 failed'' dev1
      of (r2, p2, dev2) \<Rightarrow>
      let ds2 = ds1\<lparr>hits_d_arank_curr := p2\<rparr> in
      if failed r2 then (r2, ds2, dev2) else
      case malloc_if_null (hits_d_hrank_next ds2) nodes ''HITSProblem cudaMalloc d_hrank2 failed'' dev2
      of (r3, p3, dev3) \<Rightarrow>
      let ds3 = ds2\<lparr>hits_d_hrank_next := p3\<rparr> in
      if failed r3 then (r3, ds3, dev3) else
      case malloc_if_null (hits_d_arank_next ds3) nodes ''HITSProblem cudaMalloc d_arank2 failed'' dev3
      of (r4, p4, dev4) \<Rightarrow>
      let ds4 = ds3\<lparr>hits_d_arank_next := p4\<rparr> in
      if failed r4 then (r4, ds4, dev4) else
      case malloc_if_null (hits_d_in_degrees ds4) nodes ''PRProblem cudaMalloc d_in_degrees failed'' dev4
      of (r5, p5, dev5) \<Rightarrow>
      let ds5 = ds4\<lparr>hits_d_in_degrees := p5\<rparr> in
      if failed r5 then (r5, ds5, dev5) else
      case malloc_if_null (hits_d_out_degrees ds5) nodes ''PRProblem cudaMalloc d_out_degrees failed'' dev5
      of (r6, p6, dev6) \<Rightarrow>
      let ds6 = ds5\<lparr>hits_d_out_degrees := p6\<rparr> in
      if failed r6 then (r6, ds6, dev6) else
      case malloc_if_null (hits_d_delta ds6) 1 ''PRProblem cudaMalloc d_delta failed'' dev6
      of (r7, p7, dev7) \<Rightarrow>
      let ds7 = ds6\<lparr>hits_d_delta := p7\<rparr> in
      if failed r7 then (r7, ds7, dev7) else
      case malloc_if_null (hits_d_src_node ds7) 1 ''PRProblem cudaMalloc d_src_node failed'' dev7
      of (r8, p8, dev8) \<Rightarrow>
      (r8, ds7\<lparr>hits_d_src_node := p8\<rparr>, dev8))"

text \<open>
  The rest of the loop body: the label pointer is cleared, the four rank arrays and the
  two degree arrays are set to zero, the degrees are computed from the offsets, and the
  structure is copied to the device.
\<close>

definition HITS_Reset_initialise ::
  "('v::zero) HITS_DataSlice \<Rightarrow> HITS_GraphSlice \<Rightarrow> int \<Rightarrow> 'v HITS_DataSlice" where
  "HITS_Reset_initialise ds graph_slice nodes =
     (let zero_v = map_option (\<lambda>d. MemsetKernel d 0 nodes);
          zero_i = map_option (\<lambda>d. MemsetKernel d 0 nodes);
          ds1 = ds\<lparr>hits_d_labels := None\<rparr>;
          ds2 = ds1\<lparr>hits_d_hrank_curr := zero_v (hits_d_hrank_curr ds1),
                    hits_d_arank_curr := zero_v (hits_d_arank_curr ds1),
                    hits_d_hrank_next := zero_v (hits_d_hrank_next ds1),
                    hits_d_arank_next := zero_v (hits_d_arank_next ds1)\<rparr>;
          ds3 = ds2\<lparr>hits_d_out_degrees := zero_i (hits_d_out_degrees ds2),
                    hits_d_in_degrees := zero_i (hits_d_in_degrees ds2)\<rparr>
      in ds3\<lparr>hits_d_out_degrees :=
                map_option (\<lambda>d. MemsetMadVectorKernel d (hg_d_row_offsets graph_slice)
                                   (tl (hg_d_row_offsets graph_slice)) (- 1) nodes)
                  (hits_d_out_degrees ds3),
              hits_d_in_degrees :=
                map_option (\<lambda>d. MemsetMadVectorKernel d (hg_d_column_offsets graph_slice)
                                   (tl (hg_d_column_offsets graph_slice)) (- 1) nodes)
                  (hits_d_in_degrees ds3)\<rparr>)"

function HITS_Reset_from ::
  "('v::zero) HITSProblem \<Rightarrow> int \<Rightarrow> device \<Rightarrow> cudaError_t \<times> 'v HITSProblem \<times> device" where
  "HITS_Reset_from p gpu dev =
     (if 0 \<le> gpu \<and> gpu < hits_num_gpus p then
        (case cudaSetDevice (hits_gpu_idx p ! nat gpu) dev of (e1, dev1) \<Rightarrow>
         if failed (GRError e1 ''HITSProblem cudaSetDevice failed'')
         then (GRError e1 ''HITSProblem cudaSetDevice failed'', p, dev1) else
         case HITS_Reset_allocate (hits_data_slices p ! nat gpu) (hits_nodes p) dev1 of
           (r2, ds2, dev2) \<Rightarrow>
         if failed r2
         then (r2, p\<lparr>hits_data_slices := (hits_data_slices p)[nat gpu := ds2]\<rparr>, dev2) else
         let ds3 = HITS_Reset_initialise ds2 (hits_graph_slices p ! nat gpu) (hits_nodes p);
             p3 = p\<lparr>hits_data_slices := (hits_data_slices p)[nat gpu := ds3]\<rparr>
         in
         case runtime_call dev2 of (e4, dev4) \<Rightarrow>
         if failed (GRError e4 ''HITSProblem cudaMemcpy data_slices to d_data_slices failed'')
         then (GRError e4 ''HITSProblem cudaMemcpy data_slices to d_data_slices failed'', p3, dev4)
         else
           HITS_Reset_from
             (p3\<lparr>hits_d_data_slices :=
                   (hits_d_data_slices p3)[nat gpu :=
                      map_option (\<lambda>old. ds3) (hits_d_data_slices p3 ! nat gpu)]\<rparr>)
             (gpu + 1) dev4)
      else (cudaSuccess, p, dev))"
  by pat_completeness auto
termination
  by (relation "measure (\<lambda>(p, gpu, dev). nat (hits_num_gpus p - gpu))") auto

text \<open>
  \<^verbatim>\<open>HITSProblem::Reset\<close>. \<^verbatim>\<open>ProblemBase::Reset\<close>, which prepares the frontier queues, is
  not among the sources; it is the parameter \<open>BaseReset\<close>, working on the graph slices and
  the device, and the status it returns is not looked at. After the loop the source's
  score, \<open>delta\<close> and the source are copied to the device and the first frontier queue is
  filled with every vertex.
\<close>

definition write_elem :: "'a list option \<Rightarrow> int \<Rightarrow> 'a \<Rightarrow> device \<Rightarrow> cudaError_t \<times> 'a list option \<times> device" where
  "write_elem ptr i v dev =
     (case ptr of
        None \<Rightarrow> (cudaErrorInvalidValue, ptr, dev)
      | Some d \<Rightarrow>
          if 0 \<le> i \<and> i < int (length d) then
            (case runtime_call dev of (e, dev') \<Rightarrow>
               if failed e then (e, ptr, dev') else (cudaSuccess, Some (d[nat i := v]), dev'))
          else (cudaErrorInvalidValue, ptr, dev))"

definition HITS_Reset ::
  "(HITS_GraphSlice list \<Rightarrow> device \<Rightarrow> cudaError_t \<times> HITS_GraphSlice list \<times> device) \<Rightarrow>
   ('v::{zero,one}) HITSProblem \<Rightarrow> int \<Rightarrow> 'v \<Rightarrow> device \<Rightarrow> cudaError_t \<times> 'v HITSProblem \<times> device" where
  "HITS_Reset BaseReset p src delta dev =
     (case BaseReset (hits_graph_slices p) dev of (ignored, gs0, dev0) \<Rightarrow>
      case HITS_Reset_from (p\<lparr>hits_graph_slices := gs0\<rparr>) 0 dev0 of (r1, p1, dev1) \<Rightarrow>
      if failed r1 then (r1, p1, dev1) else
      let ds = hits_data_slices p1 ! 0 in
      case write_elem (hits_d_hrank_curr ds) src 1 dev1 of (e2, h2, dev2) \<Rightarrow>
      let ds2 = ds\<lparr>hits_d_hrank_curr := h2\<rparr>;
          p2 = p1\<lparr>hits_data_slices := (hits_data_slices p1)[0 := ds2]\<rparr>
      in
      if failed (GRError e2 ''BFSProblem cudaMemcpy d_hrank_curr[src] failed'')
      then (GRError e2 ''BFSProblem cudaMemcpy d_hrank_curr[src] failed'', p2, dev2) else
      case write_elem (hits_d_delta ds2) 0 delta dev2 of (e3, d3, dev3) \<Rightarrow>
      let ds3 = ds2\<lparr>hits_d_delta := d3\<rparr>;
          p3 = p2\<lparr>hits_data_slices := (hits_data_slices p2)[0 := ds3]\<rparr>
      in
      if failed (GRError e3 ''BFSProblem cudaMemcpy d_delta failed'')
      then (GRError e3 ''BFSProblem cudaMemcpy d_delta failed'', p3, dev3) else
      case write_elem (hits_d_src_node ds3) 0 src dev3 of (e4, s4, dev4) \<Rightarrow>
      let ds4 = ds3\<lparr>hits_d_src_node := s4\<rparr>;
          p4 = p3\<lparr>hits_data_slices := (hits_data_slices p3)[0 := ds4]\<rparr>
      in
      if failed (GRError e4 ''CCProblem cudaMemcpy src to d_src_node failed'')
      then (GRError e4 ''CCProblem cudaMemcpy src to d_src_node failed'', p4, dev4) else
      (cudaSuccess,
       p4\<lparr>hits_graph_slices :=
            (hits_graph_slices p4)[0 :=
               (hits_graph_slices p4 ! 0)\<lparr>hg_d_keys0 :=
                  MemsetIdxKernel (hg_d_keys0 (hits_graph_slices p4 ! 0)) (hits_nodes p4)\<rparr>]\<rparr>,
       dev4))"

text \<open>
  A data slice all of whose arrays are allocated. \<^verbatim>\<open>HITSProblem::Init\<close> returns success
  only after each of its eight \<^verbatim>\<open>cudaMalloc\<close> calls has succeeded and its pointer has been
  stored, so this is the slice a successful \<open>Init\<close> leaves.
\<close>

definition hits_allocated :: "'v HITS_DataSlice \<Rightarrow> bool" where
  "hits_allocated ds \<longleftrightarrow>
     hits_d_hrank_curr ds \<noteq> None \<and> hits_d_arank_curr ds \<noteq> None \<and>
     hits_d_hrank_next ds \<noteq> None \<and> hits_d_arank_next ds \<noteq> None \<and>
     hits_d_in_degrees ds \<noteq> None \<and> hits_d_out_degrees ds \<noteq> None \<and>
     hits_d_delta ds \<noteq> None \<and> hits_d_src_node ds \<noteq> None"

record 'v BC_DataSlice =
  bc_d_labels :: "int list option"
  bc_d_preds :: "int list option"
  bc_d_bc_values :: "'v list option"
  bc_d_ebc_values :: "'v list option"
  bc_d_sigmas :: "'v list option"
  bc_d_deltas :: "'v list option"
  bc_d_src_node :: "int list option"
  bc_d_forward_output :: "int list option"

record 'v BCProblem =
  bc_num_gpus :: int
  bc_nodes :: int
  bc_edges :: int
  bc_data_slices :: "'v BC_DataSlice list"
  bc_gpu_idx :: "int list"

text \<open>
  \<^verbatim>\<open>BCProblem::Extract\<close>. The buffers for the edge values and for the sigmas may be null
  (\<open>None\<close>); they are then skipped. The status of \<^verbatim>\<open>cudaSetDevice\<close> is dropped as in the
  HITS problem.
\<close>

definition BC_Extract ::
  "'v BCProblem \<Rightarrow> 'v list option \<Rightarrow> 'v list \<Rightarrow> 'v list option \<Rightarrow> device
     \<Rightarrow> cudaError_t \<times> 'v list option \<times> 'v list \<times> 'v list option \<times> device" where
  "BC_Extract p h_sigmas h_bc_values h_ebc_values dev =
     (let retval = cudaSuccess in
      if bc_num_gpus p = 1 then
        (case cudaSetDevice (bc_gpu_idx p ! 0) dev of (e1, dev1) \<Rightarrow>
         if failed (GRError e1 ''BCProblem cudaSetDevice failed'')
         then (retval, h_sigmas, h_bc_values, h_ebc_values, dev1)
         else
           case cudaMemcpy_from h_bc_values (bc_d_bc_values (bc_data_slices p ! 0))
                  (bc_nodes p) dev1 of (e2, h_bc2, dev2) \<Rightarrow>
           let retval = GRError e2 ''BCProblem cudaMemcpy d_bc_values failed'' in
           if failed retval then (retval, h_sigmas, h_bc2, h_ebc_values, dev2)
           else
             case (case h_ebc_values of
                     None \<Rightarrow> (retval, None, dev2)
                   | Some h \<Rightarrow>
                       (case cudaMemcpy_from h (bc_d_ebc_values (bc_data_slices p ! 0))
                               (bc_edges p) dev2 of (e3, h3, dev3) \<Rightarrow>
                        (GRError e3 ''BCProblem cudaMemcpy d_ebc_values failed'', Some h3, dev3)))
             of (retval, h_ebc3, dev3) \<Rightarrow>
             if failed retval then (retval, h_sigmas, h_bc2, h_ebc3, dev3)
             else
               (case h_sigmas of
                  None \<Rightarrow> (retval, None, h_bc2, h_ebc3, dev3)
                | Some h \<Rightarrow>
                    (case cudaMemcpy_from h (bc_d_sigmas (bc_data_slices p ! 0))
                            (bc_nodes p) dev3 of (e4, h4, dev4) \<Rightarrow>
                     (GRError e4 ''BCProblem cudaMemcpy d_sigmas failed'', Some h4, h_bc2, h_ebc3, dev4))))
      else (retval, h_sigmas, h_bc_values, h_ebc_values, dev))"

text \<open>
  A HITS and a BC problem on one GPU with two vertices, their arrays allocated and filled,
  and a device whose next call fails with \<open>cudaErrorInvalidDevice\<close>.
\<close>

definition hits_example :: "int HITSProblem" where
  "hits_example =
     \<lparr>hits_num_gpus = 1, hits_nodes = 2, hits_edges = 1,
      hits_data_slices =
        [\<lparr>hits_d_hrank_curr = Some [1, 0], hits_d_arank_curr = Some [0, 1],
          hits_d_hrank_next = Some [0, 0], hits_d_arank_next = Some [0, 0],
          hits_d_in_degrees = Some [0, 1], hits_d_out_degrees = Some [1, 0],
          hits_d_delta = Some [0], hits_d_src_node = Some [0], hits_d_labels = None\<rparr>],
      hits_d_data_slices = [None],
      hits_gpu_idx = [0],
      hits_graph_slices =
        [\<lparr>hg_d_row_offsets = [0, 1, 1], hg_d_column_offsets = [0, 0, 1], hg_d_keys0 = [0, 0]\<rparr>]\<rparr>"

definition bc_example :: "int BCProblem" where
  "bc_example =
     \<lparr>bc_num_gpus = 1, bc_nodes = 2, bc_edges = 1,
      bc_data_slices =
        [\<lparr>bc_d_labels = Some [0, 1], bc_d_preds = Some [- 1, 0],
          bc_d_bc_values = Some [5, 6], bc_d_ebc_values = Some [7],
          bc_d_sigmas = Some [1, 1], bc_d_deltas = Some [0, 0],
          bc_d_src_node = Some [0], bc_d_forward_output = Some [0, 1]\<rparr>],
      bc_gpu_idx = [0]\<rparr>"

definition device_set_fails :: device where
  "device_set_fails = \<lparr>outcomes = [cudaErrorInvalidDevice], mallocs = 0\<rparr>"

section \<open>SALSA enactor: NormalizeRank\<close>

text \<open>
  The four rank arrays of the SALSA data slice that \<^verbatim>\<open>NormalizeRank\<close> reaches through
  \<^verbatim>\<open>problem->data_slices[0]\<close>; the record is extensible, the rest of the slice is its
  \<open>more\<close> part. The two kernels run over the first \<open>nodes\<close> entries: a launch over more
  entries than an array has is an access out of bounds, \<open>None\<close> in the model.
\<close>

record 'v SALSA_DataSlice =
  d_hrank_curr :: "'v list"
  d_hrank_next :: "'v list"
  d_arank_curr :: "'v list"
  d_arank_next :: "'v list"

definition NormalizeRank ::
  "('v::zero, 'm) SALSA_DataSlice_scheme \<Rightarrow> int \<Rightarrow> int \<Rightarrow> ('v, 'm) SALSA_DataSlice_scheme option" where
  "NormalizeRank ds hub_or_auth nodes =
     (if hub_or_auth = 0 then
        (let rank_curr = d_hrank_curr ds; rank_next = d_hrank_next ds in
         if int (length rank_curr) < nodes \<or> int (length rank_next) < nodes then None
         else
           let rank_curr' = MemsetCopyVectorKernel rank_curr rank_next nodes;
               rank_next' = MemsetKernel rank_next 0 nodes
           in Some (ds\<lparr>d_hrank_curr := rank_curr', d_hrank_next := rank_next'\<rparr>))
      else
        (let rank_curr = d_arank_curr ds; rank_next = d_arank_next ds in
         if int (length rank_curr) < nodes \<or> int (length rank_next) < nodes then None
         else
           let rank_curr' = MemsetCopyVectorKernel rank_curr rank_next nodes;
               rank_next' = MemsetKernel rank_next 0 nodes
           in Some (ds\<lparr>d_arank_curr := rank_curr', d_arank_next := rank_next'\<rparr>)))"

section \<open>SALSA enactor: the iteration driver\<close>

text \<open>
  What the enactor and the operators it launches work on: the frontier attributes, the two
  frontier queues of the graph slice, the queue length kept by the work progress, and the
  data slice. Of the graph slice the enactor itself reads the two counts and the two
  frontier capacities.
\<close>

record 'ds frontier_world =
  queue_length :: int
  queue_index :: int
  selector :: int
  queue_reset :: bool
  d_keys0 :: "int list"
  d_keys1 :: "int list"
  work_queue_length :: int
  data_slice :: 'ds

record SALSA_GraphSlice =
  sg_nodes :: int
  sg_edges :: int
  sg_frontier_elements0 :: int
  sg_frontier_elements1 :: int

text \<open>
  \<^verbatim>\<open>MemsetIdxKernel\<close> launched on the current queue, \<^verbatim>\<open>d_keys[selector]\<close>; a launch over
  more entries than the queue has is \<open>None\<close>.
\<close>

definition MemsetIdx_current :: "'ds frontier_world \<Rightarrow> int \<Rightarrow> 'ds frontier_world option" where
  "MemsetIdx_current w len =
     (if selector w = 0 then
        (if int (length (d_keys0 w)) < len then None
         else Some (w\<lparr>d_keys0 := MemsetIdxKernel (d_keys0 w) len\<rparr>))
      else
        (if int (length (d_keys1 w)) < len then None
         else Some (w\<lparr>d_keys1 := MemsetIdxKernel (d_keys1 w) len\<rparr>)))"

text \<open>
  Modelled from the spec: the work progress and \<^verbatim>\<open>EnactorBase\<close> (enactor_base.cuh) are not
  among the sources. \<open>SetQueueLength\<close> and \<open>GetQueueLength\<close> are runtime calls that store
  and read the queue length; \<^verbatim>\<open>EnactorBase::Setup\<close> is a runtime call that, by Section 3,
  resets the run counters, so \<open>iteration\<close> starts at \<open>0\<close>.
\<close>

definition SetQueueLength ::
  "'ds frontier_world \<Rightarrow> int \<Rightarrow> device \<Rightarrow> cudaError_t \<times> 'ds frontier_world \<times> device" where
  "SetQueueLength w len dev =
     (case runtime_call dev of (e, dev') \<Rightarrow>
        if failed e then (e, w, dev') else (cudaSuccess, w\<lparr>work_queue_length := len\<rparr>, dev'))"

definition GetQueueLength ::
  "'ds frontier_world \<Rightarrow> device \<Rightarrow> cudaError_t \<times> 'ds frontier_world \<times> device" where
  "GetQueueLength w dev =
     (case runtime_call dev of (e, dev') \<Rightarrow>
        if failed e then (e, w, dev')
        else (cudaSuccess, w\<lparr>queue_length := work_queue_length w\<rparr>, dev'))"

definition EnactorBase_Setup :: "device \<Rightarrow> cudaError_t \<times> int \<times> device" where
  "EnactorBase_Setup dev = (case runtime_call dev of (e, dev') \<Rightarrow> (e, 0, dev'))"

text \<open>
  The Advance operator (gunrock/oprtr/advance/kernel.cuh) and the four SALSA functors are
  not among the sources. The enactor takes the operator as a parameter: a launch is given
  the functor, the direction and the two capacities, works on the world and may report a
  status. The enactor calls \<^verbatim>\<open>LaunchKernel\<close> as a statement, so whatever a launch reports
  is dropped: only the world it leaves is used.
\<close>

datatype salsa_functor = HForwardFunctor | AForwardFunctor | HBackwardFunctor | ABackwardFunctor

datatype advance_type = V2E | E2V

type_synonym 'ds launch =
  "salsa_functor \<Rightarrow> advance_type \<Rightarrow> int \<Rightarrow> int \<Rightarrow> 'ds frontier_world \<Rightarrow> advance_status \<times> 'ds frontier_world"

text \<open>\<^verbatim>\<open>DEBUG && (retval = util::GRError(cudaThreadSynchronize(), ...))\<close>.\<close>

definition debug_synchronize :: "bool \<Rightarrow> device \<Rightarrow> cudaError_t \<times> device" where
  "debug_synchronize DEBUG dev =
     (if DEBUG then
        (case runtime_call dev of (e, dev') \<Rightarrow> (GRError e ''edge_map_forward::Kernel failed'', dev'))
      else (cudaSuccess, dev))"

text \<open>
  The body of the \<^verbatim>\<open>while (true)\<close> loop of \<^verbatim>\<open>EnactSALSA\<close>, up to the second
  \<^verbatim>\<open>NormalizeRank\<close>. \<open>Inl\<close> is a \<^verbatim>\<open>break\<close> on a failed runtime call, with the status that
  \<^verbatim>\<open>retval\<close> then has; \<open>Inr\<close> is a body that ran to its end; \<open>None\<close> is a kernel launched
  out of the bounds of an array.
\<close>

definition SALSA_iteration ::
  "('v::zero, 'm) SALSA_DataSlice_scheme launch \<Rightarrow> bool \<Rightarrow> bool \<Rightarrow> SALSA_GraphSlice \<Rightarrow>
     ('v, 'm) SALSA_DataSlice_scheme frontier_world \<Rightarrow> device \<Rightarrow>
     ((cudaError_t \<times> ('v, 'm) SALSA_DataSlice_scheme frontier_world \<times> device) +
      (('v, 'm) SALSA_DataSlice_scheme frontier_world \<times> device)) option" where
  "SALSA_iteration LaunchKernel DEBUG INSTRUMENT graph_slice w dev =
     (case MemsetIdx_current w (sg_edges graph_slice) of None \<Rightarrow> None | Some w1 \<Rightarrow>
      let w2 = w1\<lparr>queue_length := sg_edges graph_slice\<rparr> in
      case SetQueueLength w2 (queue_length w2) dev of (r1, w3, dev1) \<Rightarrow>
      if failed r1 then Some (Inl (r1, w3, dev1)) else
      let w4 = snd (LaunchKernel HBackwardFunctor E2V (sg_nodes graph_slice) (sg_edges graph_slice) w3) in
      case debug_synchronize DEBUG dev1 of (r2, dev2) \<Rightarrow>
      if failed r2 then Some (Inl (r2, w4, dev2)) else
      case NormalizeRank (data_slice w4) 0 (sg_nodes graph_slice) of None \<Rightarrow> None | Some ds5 \<Rightarrow>
      let w5 = w4\<lparr>data_slice := ds5\<rparr>;
          w6 = snd (LaunchKernel ABackwardFunctor E2V (sg_nodes graph_slice) (sg_edges graph_slice) w5)
      in
      case debug_synchronize DEBUG dev2 of (r3, dev3) \<Rightarrow>
      if failed r3 then Some (Inl (r3, w6, dev3)) else
      case (if DEBUG then GetQueueLength w6 dev3 else (cudaSuccess, w6, dev3)) of (r4, w7, dev4) \<Rightarrow>
      if failed r4 then Some (Inl (r4, w7, dev4)) else
      case (if INSTRUMENT then runtime_call dev4 else (cudaSuccess, dev4)) of (r5, dev5) \<Rightarrow>
      if failed r5 then Some (Inl (r5, w7, dev5)) else
      case NormalizeRank (data_slice w7) 1 (sg_nodes graph_slice) of None \<Rightarrow> None | Some ds8 \<Rightarrow>
      Some (Inr (w7\<lparr>data_slice := ds8\<rparr>, dev5)))"

text \<open>
  The loop, entered with the current \<open>iteration\<close>. Its result is the value of \<^verbatim>\<open>retval\<close>
  when the loop is left, the iteration counter, the world and the device. After the body
  the counter is incremented and the loop is left when \<^verbatim>\<open>iteration >= max_iteration\<close>;
  nothing else is tested.
\<close>

function SALSA_loop ::
  "('v::zero, 'm) SALSA_DataSlice_scheme launch \<Rightarrow> bool \<Rightarrow> bool \<Rightarrow> SALSA_GraphSlice \<Rightarrow> int \<Rightarrow>
     int \<Rightarrow> ('v, 'm) SALSA_DataSlice_scheme frontier_world \<Rightarrow> device \<Rightarrow>
     (cudaError_t \<times> int \<times> ('v, 'm) SALSA_DataSlice_scheme frontier_world \<times> device) option" where
  "SALSA_loop LaunchKernel DEBUG INSTRUMENT graph_slice max_iteration iteration w dev =
     (case SALSA_iteration LaunchKernel DEBUG INSTRUMENT graph_slice w dev of
        None \<Rightarrow> None
      | Some (Inl (retval, w', dev')) \<Rightarrow> Some (retval, iteration, w', dev')
      | Some (Inr (w', dev')) \<Rightarrow>
          (let iteration' = iteration + 1 in
           if iteration' \<ge> max_iteration then Some (cudaSuccess, iteration', w', dev')
           else SALSA_loop LaunchKernel DEBUG INSTRUMENT graph_slice max_iteration iteration' w' dev'))"
  by pat_completeness auto
termination
  by (relation "measure (\<lambda>(LK, D, I, g, max_iteration, iteration, w, dev).
                  nat (max_iteration - iteration))") auto

text \<open>
  \<^verbatim>\<open>EnactSALSA\<close>. \<open>LB\<close> says that the advance mode of the kernel policy is the load balanced
  one, for which the array of scanned edges is allocated. After the loop the source has
  \<^verbatim>\<open>if (retval) break;\<close> and the comment "Check overflow ignored here": the status is
  returned as the loop left it.
\<close>

definition EnactSALSA ::
  "('v::zero, 'm) SALSA_DataSlice_scheme launch \<Rightarrow> bool \<Rightarrow> bool \<Rightarrow> bool \<Rightarrow> SALSA_GraphSlice \<Rightarrow> int \<Rightarrow>
     ('v, 'm) SALSA_DataSlice_scheme frontier_world \<Rightarrow> device \<Rightarrow>
     (cudaError_t \<times> int \<times> ('v, 'm) SALSA_DataSlice_scheme frontier_world \<times> device) option" where
  "EnactSALSA LaunchKernel DEBUG INSTRUMENT LB graph_slice max_iteration w dev =
     (case EnactorBase_Setup dev of (r0, iteration, dev0) \<Rightarrow>
      if failed r0 then Some (r0, iteration, w, dev0) else
      let w1 = w\<lparr>queue_length := sg_nodes graph_slice, queue_index := 0, selector := 0,
                  queue_reset := True\<rparr> in
      case (if LB then
              (case cudaMalloc (sg_edges graph_slice + 1) dev0 of
                 (e, d_scanned_edges :: nat list option, dev') \<Rightarrow>
                   (GRError e ''SALSAProblem cudaMalloc d_scanned_edges failed'', dev'))
            else (cudaSuccess, dev0)) of (r1, dev1) \<Rightarrow>
      if failed r1 then Some (r1, iteration, w1, dev1) else
      case MemsetIdx_current w1 (sg_nodes graph_slice) of None \<Rightarrow> None | Some w2 \<Rightarrow>
      case SetQueueLength w2 (sg_nodes graph_slice) dev1 of (r2, w3, dev2) \<Rightarrow>
      if failed r2 then Some (r2, iteration, w3, dev2) else
      let w4 = snd (LaunchKernel HForwardFunctor V2E
                      (sg_frontier_elements0 graph_slice) (sg_frontier_elements1 graph_slice) w3) in
      case debug_synchronize DEBUG dev2 of (r3, dev3) \<Rightarrow>
      if failed r3 then Some (r3, iteration, w4, dev3) else
      let w5 = snd (LaunchKernel AForwardFunctor V2E
                      (sg_frontier_elements0 graph_slice) (sg_frontier_elements1 graph_slice) w4) in
      case debug_synchronize DEBUG dev3 of (r4, dev4) \<Rightarrow>
      if failed r4 then Some (r4, iteration, w5, dev4) else
      let w6 = w5\<lparr>queue_length := sg_edges graph_slice\<rparr> in
      SALSA_loop LaunchKernel DEBUG INSTRUMENT graph_slice max_iteration iteration w6 dev4)"

text \<open>
  Two launches to run the enactor with: one that changes nothing, and one that changes
  nothing and reports a frontier overflow. A world with queues of three entries and rank
  arrays of two, and two graph slices: two vertices and one edge, one vertex and no edge.
\<close>

definition launch_nothing :: "'ds launch" where
  "launch_nothing f t max_in max_out w = (AdvanceOk, w)"

definition launch_overflow :: "'ds launch" where
  "launch_overflow f t max_in max_out w = (FrontierOverflow, w)"

definition salsa_world0 :: "int SALSA_DataSlice frontier_world" where
  "salsa_world0 =
     \<lparr>queue_length = 0, queue_index = 0, selector = 0, queue_reset = False,
      d_keys0 = [0, 0, 0], d_keys1 = [0, 0, 0], work_queue_length = 0,
      data_slice = \<lparr>d_hrank_curr = [1, 1], d_hrank_next = [2, 2],
                    d_arank_curr = [3, 3], d_arank_next = [4, 4]\<rparr>\<rparr>"

definition salsa_graph_2_1 :: SALSA_GraphSlice where
  "salsa_graph_2_1 = \<lparr>sg_nodes = 2, sg_edges = 1, sg_frontier_elements0 = 2, sg_frontier_elements1 = 1\<rparr>"

definition salsa_graph_1_0 :: SALSA_GraphSlice where
  "salsa_graph_1_0 = \<lparr>sg_nodes = 1, sg_edges = 0, sg_frontier_elements0 = 1, sg_frontier_elements1 = 1\<rparr>"

section \<open>Top-k application: searching a sorted adjacency range\<close>

text \<open>
  \<^verbatim>\<open>binary_search<VertexId, SizeT>\<close> of the top-k application, instantiated (as its only
  caller does) at \<^verbatim>\<open>int\<close> for both template parameters. The array is a list of
  machine integers, the two boundaries are signed 32-bit indices, and the loop is the
  recursion below. A signed overflow and a read outside the array are undefined behaviour
  in the source; the model returns \<open>None\<close> for them.
\<close>

definition in_int :: "int \<Rightarrow> bool" where
  "in_int x \<longleftrightarrow> - (2 ^ 31) \<le> x \<and> x < 2 ^ 31"

function binary_search :: "int list \<Rightarrow> int \<Rightarrow> int \<Rightarrow> int \<Rightarrow> int option" where
  "binary_search arr val left right =
     (if left \<le> right then
        (if \<not> in_int (right - left) then None
         else let mid = left + (right - left) div 2 in
           if mid < 0 \<or> int (length arr) \<le> mid then None
           else if arr ! nat mid = val then Some (arr ! nat mid)
           else if arr ! nat mid > val then
             (if in_int (mid - 1) then binary_search arr val left (mid - 1) else None)
           else
             (if in_int (mid + 1) then binary_search arr val (mid + 1) right else None))
      else Some (- 1))"
  by pat_completeness auto
termination
  by (relation "measure (\<lambda>(arr, val, left, right). nat (right - left + 1))") auto

text \<open>
  The index range \<open>[left, right]\<close> of an array, as a list, and the two properties of a
  range the search is specified by, stated on indices.
\<close>

definition arr_range :: "int list \<Rightarrow> int \<Rightarrow> int \<Rightarrow> int list" where
  "arr_range arr left right = take (nat (right - left + 1)) (drop (nat left) arr)"

definition range_sorted :: "int list \<Rightarrow> int \<Rightarrow> int \<Rightarrow> bool" where
  "range_sorted arr left right \<longleftrightarrow>
     (\<forall>i j. left \<le> i \<and> i \<le> j \<and> j \<le> right \<longrightarrow> arr ! nat i \<le> arr ! nat j)"

definition occurs :: "int list \<Rightarrow> int \<Rightarrow> int \<Rightarrow> int \<Rightarrow> bool" where
  "occurs arr val left right \<longleftrightarrow> (\<exists>i. left \<le> i \<and> i \<le> right \<and> arr ! nat i = val)"

section \<open>Properties of the BFS problem\<close>

lemma runtime_call_mallocs: "runtime_call dev = (e, dev') \<Longrightarrow> mallocs dev' = mallocs dev"
  by (auto simp: runtime_call_def split: list.splits)

lemma Allocate_result:
  assumes "Allocate a n dev = (r, a', dev')"
  shows "(failed r \<and> a' = a \<and> mallocs dev' = mallocs dev) \<or>
         (r = cudaSuccess \<and> a' = a\<lparr>d_pointer := Some (replicate (nat n) undefined)\<rparr> \<and>
          mallocs dev' = mallocs dev + 1)"
  using assms
  by (auto simp: Allocate_def cudaMalloc_def failed_def runtime_call_def split: prod.splits if_splits list.splits)

lemma Memset_device_fresh:
  "d_pointer (Memset_device (a\<lparr>d_pointer := Some (replicate (nat n) u)\<rparr>) v n) = Some (replicate (nat n) v)"
  by (simp add: Memset_device_def MemsetKernel_def)

lemma Memset_device_h_pointer [simp]: "h_pointer (Memset_device a v n) = h_pointer a"
  by (simp add: Memset_device_def)

lemma DataSlice_Reset_success:
  assumes "DataSlice_Reset M I ds gs dev = (cudaSuccess, ds', dev')"
  shows "d_pointer (labels ds') =
           Some (replicate (nat (gs_nodes gs)) (if I then - 1 else MaxValue - 1))"
    and "M \<Longrightarrow> d_pointer (preds ds') = Some (replicate (nat (gs_nodes gs)) (- 2))"
proof -
  obtain r1 l dev1 where a1: "Allocate (labels ds) (gs_nodes gs) dev = (r1, l, dev1)"
    by (cases "Allocate (labels ds) (gs_nodes gs) dev") auto
  have ok1: "\<not> failed r1"
    using assms a1 by (auto simp: DataSlice_Reset_def Let_def failed_def split: if_splits prod.splits)
  with Allocate_result [OF a1]
  have l: "l = (labels ds)\<lparr>d_pointer := Some (replicate (nat (gs_nodes gs)) undefined)\<rparr>"
    by (auto simp: failed_def)
  define ds1 where "ds1 = ds\<lparr>labels :=
      Memset_device l (if I then - 1 else MaxValue - 1) (gs_nodes gs)\<rparr>"
  have l1: "d_pointer (labels ds1) =
              Some (replicate (nat (gs_nodes gs)) (if I then - 1 else MaxValue - 1))"
    unfolding ds1_def l by (simp add: Memset_device_fresh)
  show "d_pointer (labels ds') =
           Some (replicate (nat (gs_nodes gs)) (if I then - 1 else MaxValue - 1))"
  proof (cases M)
    case False
    with assms a1 ok1 have "labels ds' = labels ds1"
      by (auto simp: DataSlice_Reset_def Let_def ds1_def split: if_splits prod.splits)
    with l1 show ?thesis by simp
  next
    case True
    obtain r2 q dev2 where a2: "Allocate (preds ds1) (gs_nodes gs) dev1 = (r2, q, dev2)"
      by (cases "Allocate (preds ds1) (gs_nodes gs) dev1") auto
    with True assms a1 ok1 have "labels ds' = labels ds1"
      by (auto simp: DataSlice_Reset_def Let_def ds1_def split: if_splits prod.splits)
    with l1 show ?thesis by simp
  qed
  show "d_pointer (preds ds') = Some (replicate (nat (gs_nodes gs)) (- 2))" if M
  proof -
    obtain r2 q dev2 where a2: "Allocate (preds ds1) (gs_nodes gs) dev1 = (r2, q, dev2)"
      by (cases "Allocate (preds ds1) (gs_nodes gs) dev1") auto
    have ok2: "\<not> failed r2"
      using assms a1 ok1 a2 that
      by (auto simp: DataSlice_Reset_def Let_def ds1_def failed_def split: if_splits prod.splits)
    with Allocate_result [OF a2]
    have q: "q = (preds ds1)\<lparr>d_pointer := Some (replicate (nat (gs_nodes gs)) undefined)\<rparr>"
      by (auto simp: failed_def)
    have "preds ds' = Memset_device q (- 2) (gs_nodes gs)"
      using assms a1 ok1 a2 ok2 that
      by (auto simp: DataSlice_Reset_def Let_def ds1_def split: if_splits prod.splits)
    then show ?thesis unfolding q by (simp add: Memset_device_fresh)
  qed
qed

declare Reset_from.simps [simp del]

lemma Reset_from_success:
  "Reset_from M I p g dev = (cudaSuccess, p', dev') \<Longrightarrow> 0 \<le> g \<Longrightarrow>
   nat (num_gpus p) \<le> length (data_slices p) \<Longrightarrow>
     num_gpus p' = num_gpus p \<and> graph_slices p' = graph_slices p \<and> gpu_idx p' = gpu_idx p \<and>
     problem_nodes p' = problem_nodes p \<and> partition_table p' = partition_table p \<and>
     convertion_table p' = convertion_table p \<and>
     length (data_slices p') = length (data_slices p) \<and>
     (\<forall>k. nat g \<le> k \<and> k < nat (num_gpus p) \<longrightarrow>
          slice_is_reset M I (data_slices p' ! k) (graph_slices p ! k)) \<and>
     (\<forall>k < nat g. data_slices p' ! k = data_slices p ! k)"
proof (induction M I p g dev arbitrary: p' dev' rule: Reset_from.induct)
  case (1 M I p gpu dev)
  show ?case
  proof (cases "0 \<le> gpu \<and> gpu < num_gpus p")
    case False
    with "1.prems" have "p' = p" by (simp add: Reset_from.simps [of M I p gpu dev])
    with False "1.prems" show ?thesis by auto
  next
    case True
    obtain r1 dev1 where sd: "SetDevice (gpu_idx p ! nat gpu) dev = (r1, dev1)"
      by (cases "SetDevice (gpu_idx p ! nat gpu) dev") auto
    obtain r2 ds dev2 where rs:
      "DataSlice_Reset M I (data_slices p ! nat gpu) (graph_slices p ! nat gpu) dev1 = (r2, ds, dev2)"
      by (cases "DataSlice_Reset M I (data_slices p ! nat gpu) (graph_slices p ! nat gpu) dev1") auto
    obtain r3 dev3 where mv: "runtime_call dev2 = (r3, dev3)"
      by (cases "runtime_call dev2") auto
    define p2 where "p2 = p\<lparr>data_slices := (data_slices p)[nat gpu := ds]\<rparr>"
    from "1.prems"(1) True sd rs mv
    have ok: "\<not> failed r1" "\<not> failed r2" "\<not> failed r3"
      and rec: "Reset_from M I p2 (gpu + 1) dev3 = (cudaSuccess, p', dev')"
      by (auto simp: Reset_from.simps [of M I p gpu dev] Let_def p2_def failed_def
               split: if_splits)
    from ok(2) have r2: "r2 = cudaSuccess" by (simp add: failed_def)
    have dsok: "slice_is_reset M I ds (graph_slices p ! nat gpu)"
      using DataSlice_Reset_success [OF rs [unfolded r2]] by (simp add: slice_is_reset_def)
    have IH: "num_gpus p' = num_gpus p2 \<and> graph_slices p' = graph_slices p2 \<and>
       gpu_idx p' = gpu_idx p2 \<and> problem_nodes p' = problem_nodes p2 \<and> partition_table p' = partition_table p2 \<and>
       convertion_table p' = convertion_table p2 \<and>
       length (data_slices p') = length (data_slices p2) \<and>
       (\<forall>k. nat (gpu + 1) \<le> k \<and> k < nat (num_gpus p2) \<longrightarrow>
          slice_is_reset M I (data_slices p' ! k) (graph_slices p2 ! k)) \<and>
       (\<forall>k < nat (gpu + 1). data_slices p' ! k = data_slices p2 ! k)"
      using "1.IH" [OF True sd [symmetric] ok(1) rs [symmetric] refl p2_def ok(2) mv [symmetric] ok(3) rec]
        True "1.prems"(3) by (simp add: p2_def)
    have inr: "nat gpu < length (data_slices p)" using True "1.prems"(3) by linarith
    have "nat gpu < nat (gpu + 1)" using True by linarith
    with IH have "data_slices p' ! nat gpu = data_slices p2 ! nat gpu" by blast
    with inr have at: "data_slices p' ! nat gpu = ds" by (simp add: p2_def)
    have below: "\<forall>k < nat gpu. data_slices p' ! k = data_slices p ! k"
    proof (intro allI impI)
      fix k assume k: "k < nat gpu"
      then have "k < nat (gpu + 1)" by linarith
      with IH have "data_slices p' ! k = data_slices p2 ! k" by blast
      with k show "data_slices p' ! k = data_slices p ! k" by (simp add: p2_def)
    qed
    have above: "\<forall>k. nat gpu \<le> k \<and> k < nat (num_gpus p) \<longrightarrow>
          slice_is_reset M I (data_slices p' ! k) (graph_slices p ! k)"
    proof (intro allI impI)
      fix k assume k: "nat gpu \<le> k \<and> k < nat (num_gpus p)"
      show "slice_is_reset M I (data_slices p' ! k) (graph_slices p ! k)"
      proof (cases "k = nat gpu")
        case True
        with at dsok show ?thesis by simp
      next
        case False
        with k True have "nat (gpu + 1) \<le> k \<and> k < nat (num_gpus p2)" by (auto simp: p2_def)
        with IH show ?thesis by (simp add: p2_def)
      qed
    qed
    from IH above below show ?thesis by (simp add: p2_def)
  qed
qed

lemma not_failed_cudaSuccess [simp]: "\<not> failed cudaSuccess"
  by (simp add: failed_def)

lemma Move_device_to_host_result:
  assumes "Move_device_to_host a dev = (r, a', dev')"
  shows "d_pointer a' = d_pointer a"
    and "\<not> failed r \<Longrightarrow> d_pointer a = Some d \<Longrightarrow>
           h_pointer a' = Some (case h_pointer a of None \<Rightarrow> d | Some h \<Rightarrow> d @ drop (length d) h)"
    and "failed r \<Longrightarrow> a' = a"
  using assms
  by (auto simp: Move_device_to_host_def copy_elems_def split: prod.splits if_splits option.splits)

lemma Extract_single_success:
  assumes "Extract_single M p hl hp dev = (cudaSuccess, hl', hp', p', dev')"
    and "d_pointer (labels (data_slices p ! 0)) = Some dl"
    and "M \<Longrightarrow> d_pointer (preds (data_slices p ! 0)) = Some dp"
    and "0 < length (data_slices p)"
  shows "hl' = dl @ drop (length dl) hl"
    and "hp' = (if M then dp @ drop (length dp) hp else hp)"
proof -
  obtain r1 dev1 where sd: "SetDevice (gpu_idx p ! 0) dev = (r1, dev1)"
    by (cases "SetDevice (gpu_idx p ! 0) dev") auto
  define ds where "ds = data_slices p ! 0"
  obtain r2 l dev2 where mv:
    "Move_device_to_host (SetPointer_host (labels ds) hl) dev1 = (r2, l, dev2)"
    by (cases "Move_device_to_host (SetPointer_host (labels ds) hl) dev1") auto
  define ds2 where "ds2 = ds\<lparr>labels := l\<rparr>"
  define p2 where "p2 = p\<lparr>data_slices := (data_slices p)[0 := ds2]\<rparr>"
  obtain r3 q dev3 where mv2:
    "Move_device_to_host (SetPointer_host (preds ds2) hp) dev2 = (r3, q, dev3)"
    by (cases "Move_device_to_host (SetPointer_host (preds ds2) hp) dev2") auto
  from assms(1) sd mv mv2
  have ok: "\<not> failed r1" "\<not> failed r2" "M \<Longrightarrow> \<not> failed r3"
    and hl': "hl' = host_buffer l hl"
    and hp': "hp' = (if M then host_buffer q hp else hp)"
    by (auto simp: Extract_single_def Let_def ds_def [symmetric] ds2_def [symmetric]
                   p2_def [symmetric] failed_def split: if_splits)
  have "d_pointer (SetPointer_host (labels ds) hl) = Some dl"
    using assms(2) by (simp add: SetPointer_host_def ds_def)
  from Move_device_to_host_result(2) [OF mv ok(2) this]
  have "h_pointer l = Some (dl @ drop (length dl) hl)" by (simp add: SetPointer_host_def)
  with hl' show "hl' = dl @ drop (length dl) hl" by (simp add: host_buffer_def)
  show "hp' = (if M then dp @ drop (length dp) hp else hp)"
  proof (cases M)
    case False
    with hp' show ?thesis by simp
  next
    case True
    have "preds ds2 = preds ds" by (simp add: ds2_def)
    then have "d_pointer (SetPointer_host (preds ds2) hp) = Some dp"
      using assms(3) True by (simp add: SetPointer_host_def ds_def)
    from Move_device_to_host_result(2) [OF mv2 ok(3) [OF True] this]
    have "h_pointer q = Some (dp @ drop (length dp) hp)" by (simp add: SetPointer_host_def)
    with hp' True show ?thesis by (simp add: host_buffer_def)
  qed
qed

lemma Move_device_to_host_prefix:
  assumes "Move_device_to_host a dev = (r, a', dev')" "\<not> failed r" "d_pointer a = Some d"
  shows "\<exists>rest. h_pointer a' = Some (d @ rest)"
  using Move_device_to_host_result(2) [OF assms] by (cases "h_pointer a") auto

declare Extract_move.simps [simp del]

lemma Extract_move_success:
  "Extract_move M p g dev = (cudaSuccess, p', dev') \<Longrightarrow> 0 \<le> g \<Longrightarrow>
   nat (num_gpus p) \<le> length (data_slices p) \<Longrightarrow>
     num_gpus p' = num_gpus p \<and> problem_nodes p' = problem_nodes p \<and>
     partition_table p' = partition_table p \<and> convertion_table p' = convertion_table p \<and>
     length (data_slices p') = length (data_slices p) \<and>
     (\<forall>k. nat g \<le> k \<and> k < nat (num_gpus p) \<longrightarrow> moved M (data_slices p ! k) (data_slices p' ! k)) \<and>
     (\<forall>k < nat g. data_slices p' ! k = data_slices p ! k)"
proof (induction "nat (num_gpus p - g)" arbitrary: p g dev)
  case 0
  then have "\<not> (0 \<le> g \<and> g < num_gpus p)" by simp
  with "0.prems" have "p' = p" by (simp add: Extract_move.simps [of M p g dev])
  with "0.hyps" "0.prems" show ?case by auto
next
  case (Suc n)
  then have inr: "0 \<le> g \<and> g < num_gpus p" by linarith
  have gl: "nat g < length (data_slices p)" using inr Suc.prems(3) by linarith
  obtain r1 dev1 where sd: "SetDevice (gpu_idx p ! nat g) dev = (r1, dev1)"
    by (cases "SetDevice (gpu_idx p ! nat g) dev") auto
  define ds where "ds = data_slices p ! nat g"
  obtain r2 l dev2 where mv: "Move_device_to_host (labels ds) dev1 = (r2, l, dev2)"
    by (cases "Move_device_to_host (labels ds) dev1") auto
  define ds2 where "ds2 = ds\<lparr>labels := l\<rparr>"
  define p2 where "p2 = p\<lparr>data_slices := (data_slices p)[nat g := ds2]\<rparr>"
  obtain r3 q dev3 where mv2: "Move_device_to_host (preds ds2) dev2 = (r3, q, dev3)"
    by (cases "Move_device_to_host (preds ds2) dev2") auto
  define ds3 where "ds3 = ds2\<lparr>preds := q\<rparr>"
  define p3 where "p3 = p2\<lparr>data_slices := (data_slices p2)[nat g := ds3]\<rparr>"
  define dsn where "dsn = (if M then ds3 else ds2)"
  define pn where "pn = (if M then p3 else p2)"
  define devn where "devn = (if M then dev3 else dev2)"
  have unf: "Extract_move M p g dev =
      (if failed r1 then (r1, p, dev1)
       else if failed r2 then (r2, p2, dev2)
       else if M then (if failed r3 then (r3, p3, dev3) else Extract_move M p3 (g + 1) dev3)
       else Extract_move M p2 (g + 1) dev2)"
  proof -
    note facts = sd mv [unfolded ds_def] mv2 [unfolded ds2_def ds_def, simplified]
    show ?thesis
      unfolding p3_def p2_def ds3_def ds2_def ds_def
      by (subst Extract_move.simps) (simp add: inr facts Let_def)
  qed
  from Suc.prems(1)
  have ok: "\<not> failed r1" "\<not> failed r2" "M \<Longrightarrow> \<not> failed r3"
    and rec: "Extract_move M pn (g + 1) devn = (cudaSuccess, p', dev')"
    unfolding unf by (auto simp: pn_def devn_def failed_def split: if_splits)
  have pn: "pn = p\<lparr>data_slices := (data_slices p)[nat g := dsn]\<rparr>"
    by (simp add: pn_def dsn_def p3_def p2_def)
  have mvd: "moved M ds dsn"
  proof -
    have a: "d_pointer l = d_pointer (labels ds)"
      using Move_device_to_host_result(1) [OF mv] .
    have b: "\<forall>d. d_pointer (labels ds) = Some d \<longrightarrow> (\<exists>rest. h_pointer l = Some (d @ rest))"
      using Move_device_to_host_prefix [OF mv ok(2)] by blast
    show ?thesis
    proof (cases M)
      case False
      with a b show ?thesis by (simp add: moved_def dsn_def ds2_def)
    next
      case True
      have c: "d_pointer q = d_pointer (preds ds)"
        using Move_device_to_host_result(1) [OF mv2] by (simp add: ds2_def)
      have d: "\<forall>d. d_pointer (preds ds) = Some d \<longrightarrow> (\<exists>rest. h_pointer q = Some (d @ rest))"
        using Move_device_to_host_prefix [OF mv2 ok(3) [OF True]] by (simp add: ds2_def)
      from True a b c d show ?thesis by (simp add: moved_def dsn_def ds3_def ds2_def)
    qed
  qed
  have n: "n = nat (num_gpus pn - (g + 1))" using Suc.hyps(2) by (simp add: pn)
  have IH: "num_gpus p' = num_gpus pn \<and> problem_nodes p' = problem_nodes pn \<and>
     partition_table p' = partition_table pn \<and> convertion_table p' = convertion_table pn \<and>
     length (data_slices p') = length (data_slices pn) \<and>
     (\<forall>k. nat (g + 1) \<le> k \<and> k < nat (num_gpus pn) \<longrightarrow>
          moved M (data_slices pn ! k) (data_slices p' ! k)) \<and>
     (\<forall>k < nat (g + 1). data_slices p' ! k = data_slices pn ! k)"
    using Suc.hyps(1) [OF n rec] inr Suc.prems(3) by (simp add: pn)
  have "nat g < nat (g + 1)" using inr by linarith
  with IH have "data_slices p' ! nat g = data_slices pn ! nat g" by blast
  with gl have at: "data_slices p' ! nat g = dsn" by (simp add: pn)
  have below: "\<forall>k < nat g. data_slices p' ! k = data_slices p ! k"
  proof (intro allI impI)
    fix k assume k: "k < nat g"
    then have "k < nat (g + 1)" by linarith
    with IH have "data_slices p' ! k = data_slices pn ! k" by blast
    with k show "data_slices p' ! k = data_slices p ! k" by (simp add: pn)
  qed
  have above: "\<forall>k. nat g \<le> k \<and> k < nat (num_gpus p) \<longrightarrow>
                  moved M (data_slices p ! k) (data_slices p' ! k)"
  proof (intro allI impI)
    fix k assume k: "nat g \<le> k \<and> k < nat (num_gpus p)"
    show "moved M (data_slices p ! k) (data_slices p' ! k)"
    proof (cases "k = nat g")
      case True
      with at mvd show ?thesis by (simp add: ds_def)
    next
      case False
      with k inr have "nat (g + 1) \<le> k \<and> k < nat (num_gpus pn)" by (auto simp: pn)
      with IH have "moved M (data_slices pn ! k) (data_slices p' ! k)" by blast
      with False show ?thesis by (simp add: pn)
    qed
  qed
  from IH above below show ?case by (simp add: pn)
qed

lemma Extract_gather_placed:
  "Extract_gather M p h v =
     (if placed p v
      then ((fst h)[v := host_buffer (labels (data_slices p ! nat (partition_table p ! v))) []
                           ! nat (convertion_table p ! v)],
            (if M then (snd h)[v := host_buffer (preds (data_slices p ! nat (partition_table p ! v))) []
                                     ! nat (convertion_table p ! v)]
             else snd h))
      else h)"
  by (simp add: Extract_gather_def placed_def Let_def)

lemma fold_gather:
  fixes M p
  defines "f \<equiv> (\<lambda>v h. Extract_gather M p h v)"
  shows "length (fst (fold f [0..<n] h)) = length (fst h) \<and>
         length (snd (fold f [0..<n] h)) = length (snd h) \<and>
         (\<forall>v < length (fst h). fst (fold f [0..<n] h) ! v =
            (if v < n \<and> placed p v
             then host_buffer (labels (data_slices p ! nat (partition_table p ! v))) []
                    ! nat (convertion_table p ! v)
             else fst h ! v)) \<and>
         (\<forall>v < length (snd h). snd (fold f [0..<n] h) ! v =
            (if v < n \<and> placed p v \<and> M
             then host_buffer (preds (data_slices p ! nat (partition_table p ! v))) []
                    ! nat (convertion_table p ! v)
             else snd h ! v))"
proof (induction n)
  case 0
  show ?case by simp
next
  case (Suc n)
  define h' where "h' = fold f [0..<n] h"
  have step: "fold f [0..<Suc n] h = Extract_gather M p h' n"
    by (simp add: h'_def f_def)
  show ?case
  proof (cases "placed p n")
    case False
    then have e: "fold f [0..<Suc n] h = h'" unfolding step Extract_gather_placed by simp
    from Suc False show ?thesis unfolding e by (auto simp: h'_def less_Suc_eq)
  next
    case True
    then have r: "fst (fold f [0..<Suc n] h) =
        (fst h')[n := host_buffer (labels (data_slices p ! nat (partition_table p ! n))) []
                        ! nat (convertion_table p ! n)]"
      "snd (fold f [0..<Suc n] h) =
        (if M then (snd h')[n := host_buffer (preds (data_slices p ! nat (partition_table p ! n))) []
                                  ! nat (convertion_table p ! n)]
         else snd h')"
      unfolding step Extract_gather_placed by simp_all
    from Suc have len: "length (fst h') = length (fst h)" "length (snd h') = length (snd h)"
      by (simp_all add: h'_def)
    have "\<forall>v < length (fst h). fst (fold f [0..<Suc n] h) ! v =
            (if v < Suc n \<and> placed p v
             then host_buffer (labels (data_slices p ! nat (partition_table p ! v))) []
                    ! nat (convertion_table p ! v)
             else fst h ! v)"
    proof (intro allI impI)
      fix v assume v: "v < length (fst h)"
      show "fst (fold f [0..<Suc n] h) ! v =
            (if v < Suc n \<and> placed p v
             then host_buffer (labels (data_slices p ! nat (partition_table p ! v))) []
                    ! nat (convertion_table p ! v)
             else fst h ! v)"
      proof (cases "v = n")
        case True
        with v len \<open>placed p n\<close> show ?thesis unfolding r by simp
      next
        case False
        with v Suc show ?thesis unfolding r by (auto simp: h'_def less_Suc_eq)
      qed
    qed
    moreover have "\<forall>v < length (snd h). snd (fold f [0..<Suc n] h) ! v =
            (if v < Suc n \<and> placed p v \<and> M
             then host_buffer (preds (data_slices p ! nat (partition_table p ! v))) []
                    ! nat (convertion_table p ! v)
             else snd h ! v)"
    proof (intro allI impI)
      fix v assume v: "v < length (snd h)"
      show "snd (fold f [0..<Suc n] h) ! v =
            (if v < Suc n \<and> placed p v \<and> M
             then host_buffer (preds (data_slices p ! nat (partition_table p ! v))) []
                    ! nat (convertion_table p ! v)
             else snd h ! v)"
      proof (cases "v = n")
        case True
        with v len \<open>placed p n\<close> Suc show ?thesis unfolding r by (auto simp: h'_def)
      next
        case False
        with v Suc show ?thesis unfolding r by (auto simp: h'_def less_Suc_eq)
      qed
    qed
    moreover have "length (fst (fold f [0..<Suc n] h)) = length (fst h)"
      "length (snd (fold f [0..<Suc n] h)) = length (snd h)"
      unfolding r using len by simp_all
    ultimately show ?thesis by blast
  qed
qed

lemmas bfs_eval_defs =
  Reset_def Reset_from.simps chain_problem_def device_ok_def DataSlice_new_def Array1D_new_def
  SetDevice_def cudaSetDevice_def runtime_call_def GRError_def failed_def DataSlice_Reset_def
  Allocate_def cudaMalloc_def Memset_device_def MemsetKernel_def MaxValue_def
  SetPointer_device_def SetPointer_host_def Move_device_to_host_def copy_elems_def
  host_buffer_def Extract_def Extract_single_def Let_def

lemma chain_Reset:
  "Reset True False chain_problem device_ok =
     (cudaSuccess,
      chain_problem\<lparr>data_slices :=
        [DataSlice_new\<lparr>labels := \<lparr>h_pointer = None, d_pointer = Some (replicate 4 2147483646)\<rparr>,
                       preds := \<lparr>h_pointer = None, d_pointer = Some (replicate 4 (- 2))\<rparr>\<rparr>]\<rparr>,
      \<lparr>outcomes = [], mallocs = 2\<rparr>)"
  by (simp add: bfs_eval_defs)

text \<open>
  C6, as the code has it: after a \<open>Reset\<close> that succeeds, every entry of the \<open>labels\<close>
  array of every GPU's data slice holds the initial value, which is \<open>-1\<close> with
  \<open>ENABLE_IDEMPOTENCE\<close> and the largest \<open>VertexId\<close> value minus one (not that value
  itself) without it; with \<open>MARK_PREDECESSORS\<close> every entry of \<open>preds\<close> is \<open>-2\<close>.
\<close>

theorem Reset_initial_values:
  assumes "Reset M I p dev = (cudaSuccess, p', dev')"
    and "nat (num_gpus p) \<le> length (data_slices p)"
    and "gpu < nat (num_gpus p)"
  shows "d_pointer (labels (data_slices p' ! gpu)) =
           Some (replicate (nat (gs_nodes (graph_slices p ! gpu))) (if I then - 1 else MaxValue - 1)) \<and>
         (M \<longrightarrow> d_pointer (preds (data_slices p' ! gpu)) =
                  Some (replicate (nat (gs_nodes (graph_slices p ! gpu))) (- 2)))"
  using Reset_from_success [OF assms(1) [unfolded Reset_def] _ assms(2)] assms(3)
  by (simp add: slice_is_reset_def)

theorem Reset_initial_values_witness:
  "d_pointer (labels (data_slices (fst (snd (Reset True False chain_problem device_ok))) ! 0)) =
     Some (replicate 4 (MaxValue - 1)) \<and>
   d_pointer (preds (data_slices (fst (snd (Reset True False chain_problem device_ok))) ! 0)) =
     Some (replicate 4 (- 2))"
  using Reset_initial_values [OF chain_Reset, of 0] unfolding chain_Reset
  by (simp add: chain_problem_def)

text \<open>
  The claim C6 as stated, with the largest \<open>VertexId\<close> value as the initial label, fails on
  the four-vertex problem without idempotence.
\<close>

theorem Reset_labels_not_MaxValue:
  "d_pointer (labels (data_slices (fst (snd (Reset True False chain_problem device_ok))) ! 0)) \<noteq>
     Some (replicate 4 MaxValue)"
  unfolding chain_Reset by (simp add: chain_problem_def MaxValue_def)

text \<open>
  C5, as the code has it: \<open>Extract\<close> right after \<open>Reset\<close>, both succeeding, returns in
  every entry it writes the value \<open>Reset\<close> wrote: the initial label for every vertex, the
  source like any other since \<open>Reset\<close> takes no source and writes no \<open>0\<close>, and \<open>-2\<close>
  for every predecessor with \<open>MARK_PREDECESSORS\<close>.
\<close>

theorem Extract_after_Reset:
  assumes "Reset M I p dev = (cudaSuccess, p1, dev1)"
    and "Extract M p1 hl hp dev1 = (cudaSuccess, hl', hp', p2, dev2)"
    and "nat (num_gpus p) \<le> length (data_slices p)"
    and "extracted p1 v" and "v < length hl" and "v < length hp"
  shows "hl' ! v = (if I then - 1 else MaxValue - 1) \<and> (M \<longrightarrow> hp' ! v = - 2)"
proof -
  note R = Reset_from_success [OF assms(1) [unfolded Reset_def] _ assms(3), simplified]
  have fr: "num_gpus p1 = num_gpus p" "graph_slices p1 = graph_slices p"
    "length (data_slices p1) = length (data_slices p)"
    using R by simp_all
  have reset: "\<And>k. k < nat (num_gpus p) \<Longrightarrow> slice_is_reset M I (data_slices p1 ! k) (graph_slices p ! k)"
    using R by simp
  show ?thesis
  proof (cases "num_gpus p1 = 1")
    case True
    then have one: "num_gpus p = 1" using fr by simp
    define n where "n = nat (gs_nodes (graph_slices p ! 0))"
    have r0: "slice_is_reset M I (data_slices p1 ! 0) (graph_slices p ! 0)"
      using reset [of 0] one by simp
    have vn: "v < n" using assms(4) True fr by (simp add: extracted_def n_def)
    have ex: "Extract_single M p1 hl hp dev1 = (cudaSuccess, hl', hp', p2, dev2)"
      using assms(2) True by (simp add: Extract_def)
    have len: "0 < length (data_slices p1)" using assms(3) one fr by (cases "data_slices p") auto
    have dl: "d_pointer (labels (data_slices p1 ! 0)) =
                Some (replicate n (if I then - 1 else MaxValue - 1))"
      using r0 by (simp add: slice_is_reset_def n_def)
    have dp: "M \<Longrightarrow> d_pointer (preds (data_slices p1 ! 0)) = Some (replicate n (- 2))"
      using r0 by (simp add: slice_is_reset_def n_def)
    from Extract_single_success [OF ex dl dp len] vn
    show ?thesis by (simp add: nth_append)
  next
    case False
    obtain r1 p1' dev1' where mv: "Extract_move M p1 0 dev1 = (r1, p1', dev1')"
      by (cases "Extract_move M p1 0 dev1") auto
    define h where "h = fold (\<lambda>v h. Extract_gather M p1' h v) [0..<nat (problem_nodes p1')] (hl, hp)"
    obtain r2 p2' dev2' where rl: "Extract_release p1' 0 dev1' = (r2, p2', dev2')"
      by (cases "Extract_release p1' 0 dev1'") auto
    from assms(2) False mv rl
    have ok: "r1 = cudaSuccess" and hl': "hl' = fst h" and hp': "hp' = snd h"
      by (auto simp: Extract_def Let_def h_def failed_def split: if_splits)
    have len1: "nat (num_gpus p1) \<le> length (data_slices p1)" using fr assms(3) by simp
    note E = Extract_move_success [OF mv [unfolded ok] _ len1, simplified]
    have fr': "num_gpus p1' = num_gpus p1" "problem_nodes p1' = problem_nodes p1"
      "partition_table p1' = partition_table p1" "convertion_table p1' = convertion_table p1"
      using E by simp_all
    have mvd: "\<And>k. k < nat (num_gpus p1) \<Longrightarrow> moved M (data_slices p1 ! k) (data_slices p1' ! k)"
      using E by simp
    define gpu where "gpu = partition_table p1 ! v"
    define v' where "v' = convertion_table p1 ! v"
    from assms(4) False
    have vn: "v < nat (problem_nodes p1)" and pl: "placed p1 v" by (simp_all add: extracted_def)
    from pl have g: "0 \<le> gpu" "gpu < num_gpus p1" and v': "0 \<le> v'"
      "v' < GetSize (labels (data_slices p1 ! nat gpu))"
      by (simp_all add: placed_def Let_def gpu_def v'_def)
    have gk: "nat gpu < nat (num_gpus p1)" using g by linarith
    have m: "moved M (data_slices p1 ! nat gpu) (data_slices p1' ! nat gpu)"
      using mvd [OF gk] .
    have rs: "slice_is_reset M I (data_slices p1 ! nat gpu) (graph_slices p ! nat gpu)"
      using reset [of "nat gpu"] gk fr by simp
    define n where "n = nat (gs_nodes (graph_slices p ! nat gpu))"
    have dl: "d_pointer (labels (data_slices p1 ! nat gpu)) =
                Some (replicate n (if I then - 1 else MaxValue - 1))"
      using rs by (simp add: slice_is_reset_def n_def)
    have v'n: "nat v' < n" using v' dl by (simp add: GetSize_def)
    have pl': "placed p1' v"
      using pl m fr' by (simp add: placed_def Let_def GetSize_def moved_def gpu_def [symmetric])
    from m dl obtain rest where
      hl: "h_pointer (labels (data_slices p1' ! nat gpu)) =
             Some (replicate n (if I then - 1 else MaxValue - 1) @ rest)"
      by (auto simp: moved_def)
    note F = fold_gather [of M p1' "nat (problem_nodes p1')" "(hl, hp)", folded h_def, simplified]
    have "fst h ! v = host_buffer (labels (data_slices p1' ! nat gpu)) [] ! nat v'"
      using F assms(5) vn pl' fr' by (simp add: gpu_def v'_def)
    also have "\<dots> = (if I then - 1 else MaxValue - 1)"
      using hl v'n by (simp add: host_buffer_def nth_append)
    finally have A: "hl' ! v = (if I then - 1 else MaxValue - 1)" by (simp add: hl')
    have B: "hp' ! v = - 2" if M
    proof -
      have dp: "d_pointer (preds (data_slices p1 ! nat gpu)) = Some (replicate n (- 2))"
        using rs that by (simp add: slice_is_reset_def n_def)
      with m that obtain rest' where
        hq: "h_pointer (preds (data_slices p1' ! nat gpu)) = Some (replicate n (- 2) @ rest')"
        by (auto simp: moved_def)
      have "snd h ! v = host_buffer (preds (data_slices p1' ! nat gpu)) [] ! nat v'"
        using F assms(6) vn pl' fr' that by (simp add: gpu_def v'_def)
      also have "\<dots> = - 2" using hq v'n by (simp add: host_buffer_def nth_append)
      finally show ?thesis by (simp add: hp')
    qed
    from A B show ?thesis by blast
  qed
qed

lemma chain_Extract:
  "Extract True (fst (snd (Reset True False chain_problem device_ok))) [9, 9, 9, 9] [9, 9, 9, 9]
     (snd (snd (Reset True False chain_problem device_ok))) =
   (cudaSuccess, replicate 4 2147483646, replicate 4 (- 2),
    chain_problem\<lparr>data_slices :=
        [DataSlice_new\<lparr>labels := \<lparr>h_pointer = Some (replicate 4 2147483646),
                                     d_pointer = Some (replicate 4 2147483646)\<rparr>,
                       preds := \<lparr>h_pointer = Some (replicate 4 (- 2)),
                                    d_pointer = Some (replicate 4 (- 2))\<rparr>\<rparr>]\<rparr>,
    \<lparr>outcomes = [], mallocs = 2\<rparr>)"
  unfolding chain_Reset by (simp add: bfs_eval_defs)

theorem Extract_after_Reset_witness:
  "fst (snd (Extract True (fst (snd (Reset True False chain_problem device_ok))) [9, 9, 9, 9] [9, 9, 9, 9]
     (snd (snd (Reset True False chain_problem device_ok))))) ! 0 = MaxValue - 1 \<and>
   fst (snd (snd (Extract True (fst (snd (Reset True False chain_problem device_ok))) [9, 9, 9, 9] [9, 9, 9, 9]
     (snd (snd (Reset True False chain_problem device_ok)))))) ! 0 = - 2"
proof -
  have r: "Reset True False chain_problem device_ok =
      (cudaSuccess, fst (snd (Reset True False chain_problem device_ok)),
       snd (snd (Reset True False chain_problem device_ok)))"
    unfolding chain_Reset by simp
  have x: "extracted (fst (snd (Reset True False chain_problem device_ok))) 0"
    unfolding chain_Reset by (simp add: extracted_def chain_problem_def)
  have w: "nat (num_gpus chain_problem) \<le> length (data_slices chain_problem)"
    by (simp add: chain_problem_def)
  from Extract_after_Reset [OF r chain_Extract w x]
  show ?thesis unfolding chain_Extract by simp
qed

text \<open>
  The claim C5 as stated has the extracted label of the source vertex equal to \<open>0\<close>; on the
  four-vertex problem the extracted label of vertex \<open>0\<close> is the initial value.
\<close>

theorem Extract_after_Reset_source_label_not_0:
  "fst (snd (Extract True (fst (snd (Reset True False chain_problem device_ok))) [9, 9, 9, 9] [9, 9, 9, 9]
     (snd (snd (Reset True False chain_problem device_ok))))) ! 0 \<noteq> 0"
  unfolding chain_Extract by simp

text \<open>
  C8 says that a \<open>Reset\<close> after a successful \<open>Init\<close> performs no device allocation unless
  an array is missing. \<^verbatim>\<open>BFSProblem::DataSlice::Reset\<close> does not look at what is allocated:
  every \<open>Reset\<close> of a BFS data slice that succeeds performs one device allocation for
  \<open>labels\<close>, and one more for \<open>preds\<close> when predecessors are marked, whatever the slice
  held before.
\<close>

theorem DataSlice_Reset_allocates:
  assumes "DataSlice_Reset M I ds gs dev = (cudaSuccess, ds', dev')"
  shows "mallocs dev' = mallocs dev + (if M then 2 else 1)"
proof -
  obtain r1 l dev1 where a1: "Allocate (labels ds) (gs_nodes gs) dev = (r1, l, dev1)"
    by (cases "Allocate (labels ds) (gs_nodes gs) dev") auto
  have ok1: "\<not> failed r1"
    using assms a1 by (auto simp: DataSlice_Reset_def Let_def failed_def split: if_splits prod.splits)
  with Allocate_result [OF a1] have m1: "mallocs dev1 = mallocs dev + 1" by auto
  define ds1 where "ds1 = ds\<lparr>labels :=
      Memset_device l (if I then - 1 else MaxValue - 1) (gs_nodes gs)\<rparr>"
  show ?thesis
  proof (cases M)
    case False
    with assms a1 ok1 have "dev' = dev1"
      by (auto simp: DataSlice_Reset_def Let_def split: if_splits prod.splits)
    with m1 False show ?thesis by simp
  next
    case True
    obtain r2 q dev2 where a2: "Allocate (preds ds1) (gs_nodes gs) dev1 = (r2, q, dev2)"
      by (cases "Allocate (preds ds1) (gs_nodes gs) dev1") auto
    have ok2: "\<not> failed r2" and d: "dev' = dev2"
      using assms a1 ok1 a2 True
      by (auto simp: DataSlice_Reset_def Let_def ds1_def failed_def split: if_splits prod.splits)
    with Allocate_result [OF a2] have "mallocs dev2 = mallocs dev1 + 1" by auto
    with m1 d True show ?thesis by simp
  qed
qed

text \<open>
  On the four-vertex problem \<open>Init\<close> succeeds and leaves \<open>labels\<close> and \<open>preds\<close> allocated;
  the \<open>Reset\<close> that follows succeeds and performs two more device allocations.
\<close>

theorem DataSlice_Reset_allocates_witness:
  "fst chain_slice_initialised = cudaSuccess \<and>
   d_pointer (labels (fst (snd chain_slice_initialised))) \<noteq> None \<and>
   d_pointer (preds (fst (snd chain_slice_initialised))) \<noteq> None \<and>
   fst (DataSlice_Reset True False (fst (snd chain_slice_initialised))
          \<lparr>gs_nodes = 4, gs_original_vertex = Array1D_new\<rparr> (snd (snd chain_slice_initialised)))
     = cudaSuccess \<and>
   mallocs (snd (snd (DataSlice_Reset True False (fst (snd chain_slice_initialised))
          \<lparr>gs_nodes = 4, gs_original_vertex = Array1D_new\<rparr> (snd (snd chain_slice_initialised)))))
     = mallocs (snd (snd chain_slice_initialised)) + 2"
proof -
  define R where "R = DataSlice_Reset True False (fst (snd chain_slice_initialised))
          \<lparr>gs_nodes = 4, gs_original_vertex = Array1D_new\<rparr> (snd (snd chain_slice_initialised))"
  have i: "fst chain_slice_initialised = cudaSuccess \<and>
           d_pointer (labels (fst (snd chain_slice_initialised))) \<noteq> None \<and>
           d_pointer (preds (fst (snd chain_slice_initialised))) \<noteq> None"
    by (simp add: chain_slice_initialised_def DataSlice_Init_def bfs_eval_defs)
  have r: "fst R = cudaSuccess"
    unfolding R_def by (simp add: chain_slice_initialised_def DataSlice_Init_def bfs_eval_defs)
  then have "R = (cudaSuccess, fst (snd R), snd (snd R))"
    by (metis prod.collapse)
  then have "mallocs (snd (snd R)) = mallocs (snd (snd chain_slice_initialised)) + 2"
    using DataSlice_Reset_allocates [of True False "fst (snd chain_slice_initialised)"
            "\<lparr>gs_nodes = 4, gs_original_vertex = Array1D_new\<rparr>" "snd (snd chain_slice_initialised)"
            "fst (snd R)" "snd (snd R)"]
    unfolding R_def by simp
  with i r show ?thesis unfolding R_def by simp
qed

section \<open>Correctness of the BFS traversal\<close>






























section \<open>Properties of Extract in the HITS and BC problems\<close>

lemma HITS_Extract_SetDevice_failure:
  assumes "hits_num_gpus p = 1" "outcomes dev = e # es" "failed e"
  shows "HITS_Extract p h_hrank h_arank dev = (cudaSuccess, h_hrank, h_arank, dev\<lparr>outcomes := es\<rparr>)"
  using assms by (simp add: HITS_Extract_def cudaSetDevice_def runtime_call_def GRError_def)

lemma BC_Extract_SetDevice_failure:
  assumes "bc_num_gpus p = 1" "outcomes dev = e # es" "failed e"
  shows "BC_Extract p h_sigmas h_bc_values h_ebc_values dev =
           (cudaSuccess, h_sigmas, h_bc_values, h_ebc_values, dev\<lparr>outcomes := es\<rparr>)"
  using assms by (simp add: BC_Extract_def cudaSetDevice_def runtime_call_def GRError_def)

text \<open>
  C7 says that \<open>Extract\<close> never returns success after a device operation inside it has
  failed. In the HITS and in the BC problem it does: when selecting the device fails,
  \<open>Extract\<close> stops, copies nothing and returns \<open>cudaSuccess\<close>.
\<close>

theorem Extract_returns_success_after_SetDevice_failure:
  "HITS_Extract hits_example [9, 9] [9, 9] device_set_fails =
     (cudaSuccess, [9, 9], [9, 9], \<lparr>outcomes = [], mallocs = 0\<rparr>) \<and>
   BC_Extract bc_example (Some [9, 9]) [9, 9] (Some [9]) device_set_fails =
     (cudaSuccess, Some [9, 9], [9, 9], Some [9], \<lparr>outcomes = [], mallocs = 0\<rparr>)"
  by (simp add: HITS_Extract_def BC_Extract_def hits_example_def bc_example_def
        device_set_fails_def cudaSetDevice_def runtime_call_def GRError_def failed_def)

text \<open>
  The copies that follow do return their status: a failure of the first copy is the
  result of \<open>Extract\<close>, and the second buffer is left as it was.
\<close>

lemma HITS_Extract_Memcpy_failure:
  assumes "hits_num_gpus p = 1" "outcomes dev = cudaSuccess # e # es" "failed e"
    and "hits_d_hrank_curr (hits_data_slices p ! 0) = Some d"
  shows "HITS_Extract p h_hrank h_arank dev = (e, h_hrank, h_arank, dev\<lparr>outcomes := es\<rparr>)"
  using assms
  by (simp add: HITS_Extract_def cudaSetDevice_def runtime_call_def GRError_def
        cudaMemcpy_from_def cudaMemcpy_def)

text \<open>
  The sibling \<^verbatim>\<open>HITSProblem::Reset\<close> tests each pointer before it allocates: on a problem
  whose data slices are all allocated it performs no device allocation of its own, whatever
  the device calls return.
\<close>

lemma malloc_if_null_allocated:
  "ptr \<noteq> None \<Longrightarrow> malloc_if_null ptr n msg dev = (cudaSuccess, ptr, dev)"
  by (cases ptr) (simp_all add: malloc_if_null_def)

lemma HITS_Reset_allocate_allocated:
  assumes "hits_allocated ds"
  shows "HITS_Reset_allocate ds nodes dev = (cudaSuccess, ds, dev)"
  using assms
  by (simp add: HITS_Reset_allocate_def hits_allocated_def malloc_if_null_allocated Let_def
        failed_def)

lemma HITS_Reset_initialise_allocated:
  "hits_allocated ds \<Longrightarrow> hits_allocated (HITS_Reset_initialise ds gs nodes)"
  by (auto simp: HITS_Reset_initialise_def hits_allocated_def Let_def)

declare HITS_Reset_from.simps [simp del]

lemma HITS_Reset_from_mallocs:
  "HITS_Reset_from p g dev = (r, p', dev') \<Longrightarrow> 0 \<le> g \<Longrightarrow>
   nat (hits_num_gpus p) \<le> length (hits_data_slices p) \<Longrightarrow>
   (\<forall>k. nat g \<le> k \<and> k < nat (hits_num_gpus p) \<longrightarrow> hits_allocated (hits_data_slices p ! k)) \<Longrightarrow>
   mallocs dev' = mallocs dev"
proof (induction "nat (hits_num_gpus p - g)" arbitrary: p g dev)
  case 0
  then have "\<not> (0 \<le> g \<and> g < hits_num_gpus p)" by simp
  with "0.prems" show ?case by (simp add: HITS_Reset_from.simps [of p g dev])
next
  case (Suc n)
  then have inr: "0 \<le> g \<and> g < hits_num_gpus p" by linarith
  have gl: "nat g < length (hits_data_slices p)" using inr Suc.prems(3) by linarith
  have al: "hits_allocated (hits_data_slices p ! nat g)" using Suc.prems(4) inr by simp
  obtain e1 dev1 where sd: "cudaSetDevice (hits_gpu_idx p ! nat g) dev = (e1, dev1)"
    by (cases "cudaSetDevice (hits_gpu_idx p ! nat g) dev") auto
  have m1: "mallocs dev1 = mallocs dev"
    using sd by (auto simp: cudaSetDevice_def runtime_call_def split: list.splits)
  obtain e4 dev4 where cp: "runtime_call dev1 = (e4, dev4)" by (cases "runtime_call dev1") auto
  have m4: "mallocs dev4 = mallocs dev1"
    using cp by (auto simp: runtime_call_def split: list.splits)
  define ds3 where
    "ds3 = HITS_Reset_initialise (hits_data_slices p ! nat g) (hits_graph_slices p ! nat g) (hits_nodes p)"
  define p3 where "p3 = p\<lparr>hits_data_slices := (hits_data_slices p)[nat g := ds3]\<rparr>"
  define pn where "pn = p3\<lparr>hits_d_data_slices :=
                   (hits_d_data_slices p3)[nat g :=
                      map_option (\<lambda>old. ds3) (hits_d_data_slices p3 ! nat g)]\<rparr>"
  have unf: "HITS_Reset_from p g dev =
      (if failed e1 then (e1, p, dev1)
       else if failed e4 then (e4, p3, dev4)
       else HITS_Reset_from pn (g + 1) dev4)"
    unfolding pn_def p3_def ds3_def
    by (subst HITS_Reset_from.simps)
       (simp add: inr sd cp HITS_Reset_allocate_allocated [OF al] GRError_def Let_def failed_def)
  show ?case
  proof (cases "failed e1 \<or> failed e4")
    case True
    with Suc.prems(1) m1 m4 show ?thesis unfolding unf by (auto split: if_splits)
  next
    case False
    with Suc.prems(1) have rec: "HITS_Reset_from pn (g + 1) dev4 = (r, p', dev')"
      unfolding unf by simp
    have n: "n = nat (hits_num_gpus pn - (g + 1))" using Suc.hyps(2) by (simp add: pn_def p3_def)
    have len: "nat (hits_num_gpus pn) \<le> length (hits_data_slices pn)"
      using Suc.prems(3) by (simp add: pn_def p3_def)
    have al': "\<forall>k. nat (g + 1) \<le> k \<and> k < nat (hits_num_gpus pn) \<longrightarrow>
                 hits_allocated (hits_data_slices pn ! k)"
    proof (intro allI impI)
      fix k assume k: "nat (g + 1) \<le> k \<and> k < nat (hits_num_gpus pn)"
      with inr have "k \<noteq> nat g" "nat g \<le> k" "k < nat (hits_num_gpus p)"
        by (auto simp: pn_def p3_def)
      with Suc.prems(4) show "hits_allocated (hits_data_slices pn ! k)"
        by (simp add: pn_def p3_def)
    qed
    from Suc.hyps(1) [OF n rec _ len al'] inr have "mallocs dev' = mallocs dev4" by simp
    with m1 m4 show ?thesis by simp
  qed
qed

lemma write_elem_mallocs: "write_elem ptr i v dev = (e, q, dev') \<Longrightarrow> mallocs dev' = mallocs dev"
  by (auto simp: write_elem_def runtime_call_def split: option.splits if_splits list.splits)

lemma HITS_Reset_no_allocation:
  assumes "HITS_Reset BaseReset p src delta dev = (r, p', dev')"
    and "nat (hits_num_gpus p) \<le> length (hits_data_slices p)"
    and "\<forall>k < nat (hits_num_gpus p). hits_allocated (hits_data_slices p ! k)"
  shows "mallocs dev' = mallocs (snd (snd (BaseReset (hits_graph_slices p) dev)))"
proof -
  obtain i gs0 dev0 where b: "BaseReset (hits_graph_slices p) dev = (i, gs0, dev0)"
    by (cases "BaseReset (hits_graph_slices p) dev") auto
  obtain r1 p1 dev1 where l: "HITS_Reset_from (p\<lparr>hits_graph_slices := gs0\<rparr>) 0 dev0 = (r1, p1, dev1)"
    by (cases "HITS_Reset_from (p\<lparr>hits_graph_slices := gs0\<rparr>) 0 dev0") auto
  from HITS_Reset_from_mallocs [OF l] assms(2,3) have m1: "mallocs dev1 = mallocs dev0" by simp
  from assms(1) b l have "mallocs dev' = mallocs dev1"
    by (auto simp: HITS_Reset_def Let_def GRError_def split: prod.splits if_splits
             dest!: write_elem_mallocs)
  with m1 b show ?thesis by simp
qed

section \<open>Properties of the SALSA enactor\<close>

text \<open>
  C10: \<open>NormalizeRank\<close> does not normalise. Over the first \<open>nodes\<close> entries it copies the
  selected \<open>rank_next\<close> array (the hub pair when \<open>hub_or_auth = 0\<close>, the authority pair
  otherwise) into the matching \<open>rank_curr\<close> array, value for value, and then stores zero in
  those entries of \<open>rank_next\<close>; the other pair of rank arrays, the entries from \<open>nodes\<close>
  on and the rest of the data slice stay as they were.
\<close>

theorem NormalizeRank_copies_and_clears:
  fixes ds :: "('v::zero, 'm) SALSA_DataSlice_scheme"
  assumes "nodes \<le> int (length (if hub_or_auth = 0 then d_hrank_curr ds else d_arank_curr ds))"
      and "nodes \<le> int (length (if hub_or_auth = 0 then d_hrank_next ds else d_arank_next ds))"
  shows "NormalizeRank ds hub_or_auth nodes =
           Some (if hub_or_auth = 0
                 then ds\<lparr>d_hrank_curr := take (nat nodes) (d_hrank_next ds) @ drop (nat nodes) (d_hrank_curr ds),
                         d_hrank_next := replicate (nat nodes) 0 @ drop (nat nodes) (d_hrank_next ds)\<rparr>
                 else ds\<lparr>d_arank_curr := take (nat nodes) (d_arank_next ds) @ drop (nat nodes) (d_arank_curr ds),
                         d_arank_next := replicate (nat nodes) 0 @ drop (nat nodes) (d_arank_next ds)\<rparr>)"
proof -
  have m: "\<And>xs :: 'v list. nodes \<le> int (length xs) \<Longrightarrow> min (nat nodes) (length xs) = nat nodes"
    by linarith
  show ?thesis
  proof (cases "hub_or_auth = 0")
    case True
    with assms show ?thesis
      by (simp add: NormalizeRank_def Let_def MemsetCopyVectorKernel_def MemsetKernel_def m)
  next
    case False
    with assms show ?thesis
      by (simp add: NormalizeRank_def Let_def MemsetCopyVectorKernel_def MemsetKernel_def m)
  qed
qed

theorem NormalizeRank_copies_and_clears_witness:
  "NormalizeRank \<lparr>d_hrank_curr = [1, 2, 3 :: int], d_hrank_next = [4, 5, 6],
                   d_arank_curr = [7, 8, 9], d_arank_next = [10, 11, 12]\<rparr> 0 2
     = Some \<lparr>d_hrank_curr = [4, 5, 3], d_hrank_next = [0, 0, 6],
              d_arank_curr = [7, 8, 9], d_arank_next = [10, 11, 12]\<rparr>
   \<and> NormalizeRank \<lparr>d_hrank_curr = [1, 2, 3 :: int], d_hrank_next = [4, 5, 6],
                   d_arank_curr = [7, 8, 9], d_arank_next = [10, 11, 12]\<rparr> 1 3
     = Some \<lparr>d_hrank_curr = [1, 2, 3], d_hrank_next = [4, 5, 6],
              d_arank_curr = [10, 11, 12], d_arank_next = [0, 0, 0]\<rparr>"
  using NormalizeRank_copies_and_clears
          [of 2 0 "\<lparr>d_hrank_curr = [1, 2, 3 :: int], d_hrank_next = [4, 5, 6],
                   d_arank_curr = [7, 8, 9], d_arank_next = [10, 11, 12]\<rparr>"]
        NormalizeRank_copies_and_clears
          [of 3 1 "\<lparr>d_hrank_curr = [1, 2, 3 :: int], d_hrank_next = [4, 5, 6],
                   d_arank_curr = [7, 8, 9], d_arank_next = [10, 11, 12]\<rparr>"]
  by (simp add: numeral_2_eq_2 numeral_3_eq_3)

section \<open>Properties of the SALSA iteration driver\<close>

declare SALSA_loop.simps [simp del]

lemma SALSA_iteration_break:
  "SALSA_iteration LK DEBUG INSTRUMENT g w dev = Some (Inl (r, w', dev')) \<Longrightarrow> failed r"
  by (auto simp: SALSA_iteration_def Let_def split: option.splits prod.splits if_splits)

lemma SALSA_loop_iteration:
  "SALSA_loop LK DEBUG INSTRUMENT g max_iteration iteration w dev = Some (cudaSuccess, it', w', dev')
   \<Longrightarrow> it' = max (iteration + 1) max_iteration"
proof (induction "nat (max_iteration - (iteration + 1))" arbitrary: iteration w dev rule: less_induct)
  case less
  from less.prems obtain w8 dev5 where
    body: "SALSA_iteration LK DEBUG INSTRUMENT g w dev = Some (Inr (w8, dev5))"
    by (subst (asm) SALSA_loop.simps)
       (auto simp: Let_def split: option.splits sum.splits if_splits dest: SALSA_iteration_break)
  show ?case
  proof (cases "iteration + 1 \<ge> max_iteration")
    case True
    with less.prems body show ?thesis
      by (subst (asm) SALSA_loop.simps) (simp add: Let_def)
  next
    case False
    with less.prems body have
      rec: "SALSA_loop LK DEBUG INSTRUMENT g max_iteration (iteration + 1) w8 dev5 =
              Some (cudaSuccess, it', w', dev')"
      by (subst (asm) SALSA_loop.simps) (simp add: Let_def)
    have "nat (max_iteration - (iteration + 1 + 1)) < nat (max_iteration - (iteration + 1))"
      using False by linarith
    from less.hyps [OF this rec] False show ?thesis by simp
  qed
qed

text \<open>
  C4, as the code has it: a run of the SALSA enactor always ends, and when it ends normally
  the iteration counter is \<open>max_iteration\<close>, or \<open>1\<close> when \<open>max_iteration\<close> is less than
  \<open>1\<close> since the body runs before the test. The only test that ends the loop normally is
  \<^verbatim>\<open>iteration >= max_iteration\<close>; the frontier length is set to the edge count in every
  iteration and is not tested.
\<close>

theorem EnactSALSA_exit_iteration:
  assumes "EnactSALSA LK DEBUG INSTRUMENT LB g max_iteration w dev = Some (cudaSuccess, it', w', dev')"
  shows "it' = max 1 max_iteration"
proof -
  from assms obtain w6 dev4 where
    "SALSA_loop LK DEBUG INSTRUMENT g max_iteration 0 w6 dev4 = Some (cudaSuccess, it', w', dev')"
    by (auto simp: EnactSALSA_def EnactorBase_Setup_def Let_def failed_def
             split: option.splits prod.splits if_splits)
  from SALSA_loop_iteration [OF this] show ?thesis by simp
qed

lemmas salsa_eval_defs =
  EnactSALSA_def EnactorBase_Setup_def SALSA_loop.simps SALSA_iteration_def salsa_world0_def device_ok_def
  runtime_call_def failed_def GRError_def cudaMalloc_def MemsetIdx_current_def MemsetIdxKernel_def
  SetQueueLength_def GetQueueLength_def debug_synchronize_def NormalizeRank_def
  MemsetCopyVectorKernel_def MemsetKernel_def launch_nothing_def launch_overflow_def Let_def

lemma runtime_call_ok: "outcomes dev = [] \<Longrightarrow> runtime_call dev = (cudaSuccess, dev)"
  by (simp add: runtime_call_def)

lemma SALSA_iteration_ok:
  assumes "outcomes dev = []"
  shows "SALSA_iteration LK DEBUG INSTRUMENT g w dev \<noteq> Some (Inl (r, w', dev'))"
    and "SALSA_iteration LK DEBUG INSTRUMENT g w dev = Some (Inr (w', dev')) \<Longrightarrow> dev' = dev"
  using assms
  by (auto simp: SALSA_iteration_def Let_def failed_def runtime_call_ok SetQueueLength_def
                 GetQueueLength_def debug_synchronize_def GRError_def
           split: option.splits prod.splits if_splits)

lemma SALSA_loop_status:
  "outcomes dev = [] \<Longrightarrow>
   SALSA_loop LK DEBUG INSTRUMENT g max_iteration iteration w dev = Some (r, it', w', dev')
   \<Longrightarrow> r = cudaSuccess"
proof (induction "nat (max_iteration - (iteration + 1))" arbitrary: iteration w dev rule: less_induct)
  case less
  from less.prems obtain w8 dev5 where
    body: "SALSA_iteration LK DEBUG INSTRUMENT g w dev = Some (Inr (w8, dev5))"
    by (subst (asm) SALSA_loop.simps)
       (auto simp: Let_def SALSA_iteration_ok(1) split: option.splits sum.splits if_splits)
  from SALSA_iteration_ok(2) [OF less.prems(1) body] have d: "dev5 = dev" .
  show ?case
  proof (cases "iteration + 1 \<ge> max_iteration")
    case True
    with less.prems body show ?thesis
      by (subst (asm) SALSA_loop.simps) (simp add: Let_def)
  next
    case False
    with less.prems body d have
      rec: "SALSA_loop LK DEBUG INSTRUMENT g max_iteration (iteration + 1) w8 dev =
              Some (r, it', w', dev')"
      by (subst (asm) SALSA_loop.simps) (simp add: Let_def)
    have "nat (max_iteration - (iteration + 1 + 1)) < nat (max_iteration - (iteration + 1))"
      using False by linarith
    from less.hyps [OF this less.prems(1) rec] show ?thesis .
  qed
qed

text \<open>
  C2 says that an Advance whose output exceeds the capacity of the output queue surfaces an
  overflow error to its caller. The enactor cannot receive one: when the runtime calls of
  the enactor itself succeed, the status it returns is \<open>cudaSuccess\<close> whatever its launches
  report, a frontier overflow included.
\<close>

theorem EnactSALSA_drops_launch_status:
  assumes "outcomes dev = []"
    and "EnactSALSA LK DEBUG INSTRUMENT LB g max_iteration w dev = Some (r, it', w', dev')"
  shows "r = cudaSuccess"
  using assms
  by (auto simp: EnactSALSA_def EnactorBase_Setup_def Let_def failed_def runtime_call_ok
                 SetQueueLength_def debug_synchronize_def GRError_def cudaMalloc_def
           split: option.splits prod.splits if_splits
           dest!: SALSA_loop_status [rotated])

lemma EnactSALSA_overflow_run:
  "\<exists>w'. EnactSALSA launch_overflow False False True salsa_graph_2_1 1 salsa_world0 device_ok =
     Some (cudaSuccess, 1, w', \<lparr>outcomes = [], mallocs = 1\<rparr>)"
  by (simp add: salsa_eval_defs salsa_graph_2_1_def)

theorem EnactSALSA_drops_launch_status_witness:
  "fst (the (EnactSALSA launch_overflow False False True salsa_graph_2_1 1 salsa_world0 device_ok))
     = cudaSuccess"
proof -
  from EnactSALSA_overflow_run obtain w' where
    e: "EnactSALSA launch_overflow False False True salsa_graph_2_1 1 salsa_world0 device_ok =
          Some (cudaSuccess, 1, w', \<lparr>outcomes = [], mallocs = 1\<rparr>)" by blast
  have o: "outcomes device_ok = []" by (simp add: device_ok_def)
  from EnactSALSA_drops_launch_status [OF o e] show ?thesis unfolding e by simp
qed

text \<open>
  The claim C4 as stated fails twice. With \<open>max_iteration = 0\<close> on a graph with an edge
  the run ends normally with a frontier that is not empty and a counter that is not
  \<open>max_iteration\<close>; with an empty frontier and \<open>max_iteration = 2\<close> the loop does not stop
  at the empty frontier but runs both iterations.
\<close>

theorem EnactSALSA_exit_counterexample:
  "(case EnactSALSA launch_nothing False False True salsa_graph_2_1 0 salsa_world0 device_ok of
      None \<Rightarrow> False
    | Some (r, it', w', dev') \<Rightarrow> r = cudaSuccess \<and> queue_length w' \<noteq> 0 \<and> it' \<noteq> 0) \<and>
   (case EnactSALSA launch_nothing False False True salsa_graph_1_0 2 salsa_world0 device_ok of
      None \<Rightarrow> False
    | Some (r, it', w', dev') \<Rightarrow> r = cudaSuccess \<and> queue_length w' = 0 \<and> it' = 2)"
  by (simp add: salsa_eval_defs salsa_graph_2_1_def salsa_graph_1_0_def)

lemma EnactSALSA_three_run:
  "\<exists>w'. EnactSALSA launch_nothing False False True salsa_graph_2_1 3 salsa_world0 device_ok =
     Some (cudaSuccess, 3, w', \<lparr>outcomes = [], mallocs = 1\<rparr>)"
  by (simp add: salsa_eval_defs salsa_graph_2_1_def)

theorem EnactSALSA_exit_iteration_witness:
  "fst (snd (the (EnactSALSA launch_nothing False False True salsa_graph_2_1 3 salsa_world0 device_ok)))
     = max 1 3"
proof -
  from EnactSALSA_three_run obtain w' where
    e: "EnactSALSA launch_nothing False False True salsa_graph_2_1 3 salsa_world0 device_ok =
          Some (cudaSuccess, 3, w', \<lparr>outcomes = [], mallocs = 1\<rparr>)" by blast
  from EnactSALSA_exit_iteration [OF e] show ?thesis unfolding e by simp
qed

section \<open>Properties of the sorted-range search\<close>

declare binary_search.simps [simp del]

lemma range_sorted_sub:
  "range_sorted arr l r \<Longrightarrow> l \<le> l' \<Longrightarrow> r' \<le> r \<Longrightarrow> range_sorted arr l' r'"
  unfolding range_sorted_def by (meson order_trans)

lemma occurs_mono:
  assumes "occurs arr val l' r'" "l \<le> l'" "r' \<le> r"
  shows "occurs arr val l r"
proof -
  from assms(1) obtain i where i: "l' \<le> i" "i \<le> r'" "arr ! nat i = val"
    unfolding occurs_def by blast
  with assms(2,3) have "l \<le> i \<and> i \<le> r \<and> arr ! nat i = val" by simp
  then show ?thesis unfolding occurs_def by blast
qed

lemma bs_core:
  "0 \<le> left \<Longrightarrow> right < int (length arr) \<Longrightarrow> int (length arr) < 2 ^ 31 \<Longrightarrow>
   range_sorted arr left right \<Longrightarrow>
   binary_search arr val left right = Some (if occurs arr val left right then val else - 1)"
proof (induction arr val left right rule: binary_search.induct)
  case (1 arr val left right)
  show ?case
  proof (cases "left \<le> right")
    case False
    then have "\<not> occurs arr val left right" by (auto simp: occurs_def)
    with False show ?thesis by (simp add: binary_search.simps [of arr val left right])
  next
    case True
    define mid where "mid = left + (right - left) div 2"
    have mid_range: "left \<le> mid" "mid \<le> right" using True by (auto simp: mid_def)
    have ok: "in_int (right - left)" "in_int (mid - 1)" "in_int (mid + 1)"
      using True "1.prems" mid_range by (auto simp: in_int_def)
    have inb: "\<not> (mid < 0 \<or> int (length arr) \<le> mid)" using "1.prems" mid_range by auto
    consider (eq) "arr ! nat mid = val" | (gt) "arr ! nat mid > val" | (lt) "arr ! nat mid < val"
      by linarith
    then show ?thesis
    proof cases
      case eq
      then have "occurs arr val left right" using mid_range by (auto simp: occurs_def)
      with eq True ok inb show ?thesis
        by (simp add: binary_search.simps [of arr val left right] mid_def [symmetric] Let_def)
    next
      case gt
      have IH: "binary_search arr val left (mid - 1) =
                  Some (if occurs arr val left (mid - 1) then val else - 1)"
        using "1.IH"(1) [OF True _ mid_def] ok inb gt "1.prems" mid_range
          range_sorted_sub [OF "1.prems"(4), of left "mid - 1"]
        by auto
      have "occurs arr val left right \<longleftrightarrow> occurs arr val left (mid - 1)"
      proof
        assume "occurs arr val left right"
        then obtain i where i: "left \<le> i" "i \<le> right" "arr ! nat i = val"
          by (auto simp: occurs_def)
        have "i < mid"
        proof (rule ccontr)
          assume "\<not> i < mid"
          then have "arr ! nat mid \<le> arr ! nat i"
            using "1.prems"(4) i mid_range unfolding range_sorted_def by auto
          with gt i show False by simp
        qed
        with i have "left \<le> i \<and> i \<le> mid - 1 \<and> arr ! nat i = val" by simp
        then show "occurs arr val left (mid - 1)" unfolding occurs_def by blast
      next
        assume "occurs arr val left (mid - 1)"
        then show "occurs arr val left right" using mid_range by (auto elim: occurs_mono)
      qed
      with IH gt True ok inb show ?thesis
        by (simp add: binary_search.simps [of arr val left right] mid_def [symmetric] Let_def)
    next
      case lt
      have IH: "binary_search arr val (mid + 1) right =
                  Some (if occurs arr val (mid + 1) right then val else - 1)"
        using "1.IH"(2) [OF True _ mid_def] ok inb lt "1.prems" mid_range
          range_sorted_sub [OF "1.prems"(4), of "mid + 1" right]
        by auto
      have "occurs arr val left right \<longleftrightarrow> occurs arr val (mid + 1) right"
      proof
        assume "occurs arr val left right"
        then obtain i where i: "left \<le> i" "i \<le> right" "arr ! nat i = val"
          by (auto simp: occurs_def)
        have "mid < i"
        proof (rule ccontr)
          assume "\<not> mid < i"
          then have "arr ! nat i \<le> arr ! nat mid"
            using "1.prems"(4) i mid_range unfolding range_sorted_def by auto
          with lt i show False by simp
        qed
        with i have "mid + 1 \<le> i \<and> i \<le> right \<and> arr ! nat i = val" by simp
        then show "occurs arr val (mid + 1) right" unfolding occurs_def by blast
      next
        assume "occurs arr val (mid + 1) right"
        then show "occurs arr val left right" using mid_range by (auto elim: occurs_mono)
      qed
      with IH lt True ok inb show ?thesis
        by (simp add: binary_search.simps [of arr val left right] mid_def [symmetric] Let_def)
    qed
  qed
qed

lemma arr_range_nth:
  assumes "0 \<le> left" "right < int (length arr)" "left \<le> i" "i \<le> right"
  shows "arr_range arr left right ! nat (i - left) = arr ! nat i"
proof -
  have "nat (i - left) < nat (right - left + 1)" using assms by simp
  moreover have "nat left + nat (i - left) = nat i" using assms by simp
  moreover have "nat left + nat (i - left) < length arr" using assms by simp
  ultimately show ?thesis by (simp add: arr_range_def)
qed

lemma arr_range_length:
  assumes "0 \<le> left" "right < int (length arr)"
  shows "length (arr_range arr left right) = nat (right - left + 1)"
  using assms by (auto simp: arr_range_def)

lemma arr_range_sorted:
  assumes "0 \<le> left" "right < int (length arr)" "sorted (arr_range arr left right)"
  shows "range_sorted arr left right"
  unfolding range_sorted_def
proof (intro allI impI)
  fix i j assume ij: "left \<le> i \<and> i \<le> j \<and> j \<le> right"
  have "nat (i - left) \<le> nat (j - left)" using ij by linarith
  moreover have "nat (j - left) < length (arr_range arr left right)"
    using ij assms by (simp add: arr_range_length)
  ultimately have "arr_range arr left right ! nat (i - left) \<le> arr_range arr left right ! nat (j - left)"
    using assms(3) by (simp add: sorted_iff_nth_mono)
  then show "arr ! nat i \<le> arr ! nat j"
    using arr_range_nth [OF assms(1,2), of i] arr_range_nth [OF assms(1,2), of j] ij by simp
qed

lemma arr_range_occurs:
  assumes "0 \<le> left" "right < int (length arr)"
  shows "occurs arr val left right \<longleftrightarrow> val \<in> set (arr_range arr left right)"
proof
  assume "occurs arr val left right"
  then obtain i where i: "left \<le> i" "i \<le> right" "arr ! nat i = val"
    unfolding occurs_def by blast
  have "nat (i - left) < length (arr_range arr left right)"
    using i assms by (simp add: arr_range_length)
  moreover have "arr_range arr left right ! nat (i - left) = val"
    using arr_range_nth [OF assms i(1,2)] i(3) by simp
  ultimately show "val \<in> set (arr_range arr left right)" by (metis nth_mem)
next
  assume "val \<in> set (arr_range arr left right)"
  then obtain k where k: "k < length (arr_range arr left right)" "arr_range arr left right ! k = val"
    by (auto simp: in_set_conv_nth)
  define i where "i = left + int k"
  have r: "left \<le> i" "i \<le> right" using k(1) assms by (auto simp: i_def arr_range_length)
  have "nat (i - left) = k" by (simp add: i_def)
  then have "arr ! nat i = val" using arr_range_nth [OF assms r] k(2) by simp
  with r show "occurs arr val left right" unfolding occurs_def by blast
qed

text \<open>
  C9: on an array that is sorted in ascending order on the index range \<open>[left, right]\<close>
  (a range of valid indices of an array indexable by \<^verbatim>\<open>int\<close>), \<open>binary_search\<close> returns
  the searched value if it occurs in that range and \<open>-1\<close> if it does not.
\<close>

theorem binary_search_sorted_range:
  assumes "0 \<le> left" "right < int (length arr)" "int (length arr) < 2 ^ 31"
    and "sorted (arr_range arr left right)"
  shows "binary_search arr val left right =
           Some (if val \<in> set (arr_range arr left right) then val else - 1)"
  using bs_core [OF assms(1,2,3) arr_range_sorted [OF assms(1,2,4)], of val]
    arr_range_occurs [OF assms(1,2), of val]
  by simp

theorem binary_search_sorted_range_witness:
  "binary_search [1, 3, 5, 7, 2] 5 0 3 = Some 5 \<and> binary_search [1, 3, 5, 7, 2] 4 0 3 = Some (- 1)"
proof -
  have s: "sorted (arr_range [1, 3, 5, 7, 2] 0 3)" by (simp add: arr_range_def)
  have a: "(0::int) \<le> 0" "(3::int) < int (length [1, 3, 5, 7, 2::int])"
    "int (length [1, 3, 5, 7, 2::int]) < 2 ^ 31" by simp_all
  show ?thesis
    using binary_search_sorted_range [OF a s, of 5] binary_search_sorted_range [OF a s, of 4]
    by (simp add: arr_range_def)
qed

end
